theory Spec2Isabelle
  imports Complex_Main
begin

section \<open>Numbers, values and exceptions\<close>

text \<open>
  The engines compute on JavaScript numbers. A finite number is modelled as a \<^typ>\<open>real\<close>
  with exact arithmetic: the rounding of IEEE doubles is not represented. The values that the
  code itself creates out of finite inputs (\<open>NaN\<close> from \<open>0 / 0\<close>, \<open>Infinity\<close> from a division
  by zero, \<open>undefined\<close> from an array read out of range) are the further constructors of
  \<open>jsval\<close>. A thrown exception is the left summand of a result.
\<close>

datatype js_error = Error string | TypeError

datatype jsval = Num real | NaN | PosInfinity | NegInfinity | Undefined

text \<open>
  \<open>x.toFixed(d)\<close> read back as a number, for a finite \<open>x\<close>: the decimal with \<open>d\<close> fraction
  digits nearest to \<open>x\<close>, the larger magnitude on a tie; from \<open>10^21\<close> on the number prints in
  full and reads back unchanged.
\<close>

definition toFixed :: "nat \<Rightarrow> real \<Rightarrow> real" where
  "toFixed d x =
     (if 10 ^ 21 \<le> \<bar>x\<bar> then x
      else sgn x * of_int \<lfloor>\<bar>x\<bar> * 10 ^ d + 1 / 2\<rfloor> / 10 ^ d)"

text \<open>Cutting a number off after \<open>d\<close> fraction digits, as the word "truncate" says.\<close>

definition truncate_digits :: "nat \<Rightarrow> real \<Rightarrow> real" where
  "truncate_digits d x = sgn x * of_int \<lfloor>\<bar>x\<bar> * 10 ^ d\<rfloor> / 10 ^ d"


section \<open>CurrencyEngine\<close>

text \<open>
  \<open>ExchangeRates\<close> is an object whose keys are pair names \<open>FROM/TO\<close> holding a number, and the
  key \<open>timestamp\<close> holding a date. The numeric entries are the map \<open>pairs\<close>; a pair name
  contains a slash, so it never is the key \<open>timestamp\<close>, and the test
  \<open>pair !== "timestamp"\<close> of the source is true at each of its uses. Dates are milliseconds.
\<close>

record ExchangeRates =
  pairs :: "string \<rightharpoonup> real"
  timestamp :: int

definition precision :: nat where
  "precision = 6"

definition truncateToPrecision :: "real \<Rightarrow> real" where
  "truncateToPrecision v = toFixed precision v"

definition pair_key :: "string \<Rightarrow> string \<Rightarrow> string" where
  "pair_key a b = a @ ''/'' @ b"

definition intermediaries :: "string list" where
  "intermediaries = [''USD'', ''EUR'']"

fun indirect_loop :: "ExchangeRates \<Rightarrow> string \<Rightarrow> string \<Rightarrow> string list \<Rightarrow> real option" where
  "indirect_loop T from to [] = None"
| "indirect_loop T from to (intermediary # rest) =
     (if intermediary = from \<or> intermediary = to then indirect_loop T from to rest
      else (case pairs T (pair_key from intermediary) of
              None \<Rightarrow> indirect_loop T from to rest
            | Some r1 \<Rightarrow>
                (case pairs T (pair_key intermediary to) of
                   None \<Rightarrow> indirect_loop T from to rest
                 | Some r2 \<Rightarrow> Some (r1 * r2))))"

definition getIndirectRate :: "ExchangeRates \<Rightarrow> string \<Rightarrow> string \<Rightarrow> real option" where
  "getIndirectRate T from to = indirect_loop T from to intermediaries"

definition rate_not_found :: "string \<Rightarrow> js_error" where
  "rate_not_found pair = Error (''No exchange rate found for '' @ pair)"

text \<open>
  \<open>convert\<close>. The guard \<open>!indirectRate\<close> is true for \<open>null\<close> and for the number \<open>0\<close>.
  The reciprocal of a stored rate \<open>0\<close> is \<open>Infinity\<close> in the source and is outside the
  model: the definition is the code's on tables whose stored rates are positive, as the data
  model has them, and every statement about a conversion between different currencies is
  made for such a table (\<open>positive_rates\<close>) or for one of the two concrete tables below.
\<close>

definition convert :: "ExchangeRates \<Rightarrow> real \<Rightarrow> string \<Rightarrow> string \<Rightarrow> js_error + real" where
  "convert T amount fromCurrency toCurrency =
     (if fromCurrency = toCurrency then Inr (truncateToPrecision amount)
      else
        let pair = pair_key fromCurrency toCurrency;
            reversePair = pair_key toCurrency fromCurrency
        in (case pairs T pair of
              Some r \<Rightarrow> Inr (truncateToPrecision (amount * r))
            | None \<Rightarrow>
                (case pairs T reversePair of
                   Some r \<Rightarrow> Inr (truncateToPrecision (amount * (1 / r)))
                 | None \<Rightarrow>
                     (case getIndirectRate T fromCurrency toCurrency of
                        None \<Rightarrow> Inl (rate_not_found pair)
                      | Some indirectRate \<Rightarrow>
                          if indirectRate = 0 then Inl (rate_not_found pair)
                          else Inr (truncateToPrecision (amount * indirectRate))))))"

text \<open>The table the constructor of \<open>CurrencyEngine\<close> installs.\<close>

definition initial_rates :: ExchangeRates where
  "initial_rates =
     \<lparr>pairs = map_of
        [(''USD/EUR'', 92 / 100), (''USD/GBP'', 79 / 100), (''USD/PKR'', 2785 / 10),
         (''EUR/GBP'', 86 / 100), (''EUR/PKR'', 3027 / 10), (''GBP/PKR'', 3512 / 10)],
      timestamp = 0\<rparr>"

text \<open>The table of the conversion scenario: only \<open>USD/EUR\<close> and \<open>EUR/PKR\<close>.\<close>

definition scenario_rates :: ExchangeRates where
  "scenario_rates =
     \<lparr>pairs = map_of [(''USD/EUR'', 92 / 100), (''EUR/PKR'', 3027 / 10)], timestamp = 0\<rparr>"

text \<open>The data model's invariant of a rate table: every stored rate is positive.\<close>

definition positive_rates :: "ExchangeRates \<Rightarrow> bool" where
  "positive_rates T = (\<forall>k r. pairs T k = Some r \<longrightarrow> 0 < r)"

text \<open>
  The one-hop path in the words of the specification: an intermediary among USD, EUR, other
  than the two currencies, with both forward pairs stored.
\<close>

definition one_hop_path :: "ExchangeRates \<Rightarrow> string \<Rightarrow> string \<Rightarrow> bool" where
  "one_hop_path T from to =
     (\<exists>X \<in> set [''USD'', ''EUR''].
        X \<noteq> from \<and> X \<noteq> to \<and> pairs T (pair_key from X) \<noteq> None \<and> pairs T (pair_key X to) \<noteq> None)"

text \<open>
  The rate of a conversion between two different currencies in the words of the
  specification: the stored rate of the pair; else the reciprocal of the stored rate of the
  reverse pair; else the product of the two forward legs through USD, else through EUR, an
  intermediary equal to one of the two currencies being skipped; else none.
\<close>

definition spec_one_hop :: "ExchangeRates \<Rightarrow> string \<Rightarrow> string \<Rightarrow> string \<Rightarrow> real option" where
  "spec_one_hop T from to X =
     (if X = from \<or> X = to then None
      else (case (pairs T (pair_key from X), pairs T (pair_key X to)) of
              (Some a, Some b) \<Rightarrow> Some (a * b)
            | _ \<Rightarrow> None))"

definition spec_rate :: "ExchangeRates \<Rightarrow> string \<Rightarrow> string \<Rightarrow> real option" where
  "spec_rate T from to =
     (case pairs T (pair_key from to) of
        Some r \<Rightarrow> Some r
      | None \<Rightarrow>
          (case pairs T (pair_key to from) of
             Some r \<Rightarrow> Some (1 / r)
           | None \<Rightarrow>
               (case spec_one_hop T from to ''USD'' of
                  Some r \<Rightarrow> Some r
                | None \<Rightarrow> spec_one_hop T from to ''EUR'')))"


section \<open>AssetEngine\<close>

datatype LiquidityClass = Liquid | Illiquid | Yield | Volatile

text \<open>An \<open>Asset\<close>; \<open>lockedUntil\<close> is an optional date, \<open>baseValue\<close> an optional number.\<close>

record Asset =
  id' :: string
  name :: string
  amount :: real
  currency :: string
  volatility :: real
  liquidityClass :: LiquidityClass
  lockedUntil :: "int option"
  baseValue :: "real option"

definition liquidationPenalty :: "LiquidityClass \<Rightarrow> real" where
  "liquidationPenalty c =
     (case c of Liquid \<Rightarrow> 0 | Yield \<Rightarrow> 2 / 100 | Volatile \<Rightarrow> 5 / 100 | Illiquid \<Rightarrow> 1 / 10)"

definition liquidityOrder :: "LiquidityClass list" where
  "liquidityOrder = [Liquid, Yield, Volatile, Illiquid]"

subsection \<open>Liquidation over a store of asset objects\<close>

text \<open>
  \<open>liquidateForDeficit\<close> copies its argument and then assigns to the \<open>amount\<close> field of
  objects, so the objects live in a store: a list of assets, an object's address being its
  position. An array is a list of addresses. \<open>JSON.parse(JSON.stringify(assets))\<close> allocates
  one new object per array element, with the fields of the element (a date is written out as
  text for the same instant); the new objects are appended to the store.
\<close>

type_synonym ref = nat
type_synonym heap = "Asset list"

definition deepCopy :: "heap \<Rightarrow> ref list \<Rightarrow> heap \<times> ref list" where
  "deepCopy h assets = (h @ map (\<lambda>r. h ! r) assets, [length h ..< length h + length assets])"

text \<open>An address of a live object is below the size of the store.\<close>

definition valid_refs :: "heap \<Rightarrow> ref list \<Rightarrow> bool" where
  "valid_refs h assets = list_all (\<lambda>r. r < length h) assets"

text \<open>The inner loop \<open>for (const asset of classAssets)\<close>; an exception leaves the loop.\<close>

fun sellClass ::
  "ExchangeRates \<Rightarrow> LiquidityClass \<Rightarrow> ref list \<Rightarrow> real \<Rightarrow> heap \<Rightarrow> (js_error + real) \<times> heap" where
  "sellClass T liquidityClass' [] remainingDeficit h = (Inr remainingDeficit, h)"
| "sellClass T liquidityClass' (r # classAssets) remainingDeficit h =
     (if remainingDeficit \<le> 0 then (Inr remainingDeficit, h)
      else
        let asset = h ! r;
            sellAmount = min (amount asset) remainingDeficit;
            penalty = liquidationPenalty liquidityClass'
        in (case convert T sellAmount (currency asset) ''USD'' of
              Inl e \<Rightarrow> (Inl e, h)
            | Inr proceedsBeforePenalty \<Rightarrow>
                let proceeds = proceedsBeforePenalty * (1 - penalty)
                in sellClass T liquidityClass' classAssets (remainingDeficit - proceeds)
                     (h[r := asset\<lparr>amount := amount asset - sellAmount\<rparr>])))"

text \<open>The outer loop \<open>for (const liquidityClass of liquidityOrder)\<close>.\<close>

fun classLoop ::
  "ExchangeRates \<Rightarrow> LiquidityClass list \<Rightarrow> ref list \<Rightarrow> real \<Rightarrow> heap \<Rightarrow> (js_error + real) \<times> heap" where
  "classLoop T [] updatedAssets remainingDeficit h = (Inr remainingDeficit, h)"
| "classLoop T (liquidityClass' # rest) updatedAssets remainingDeficit h =
     (if remainingDeficit \<le> 0 then (Inr remainingDeficit, h)
      else
        let classAssets = filter (\<lambda>r. liquidityClass (h ! r) = liquidityClass') updatedAssets
        in (case sellClass T liquidityClass' classAssets remainingDeficit h of
              (Inl e, h') \<Rightarrow> (Inl e, h')
            | (Inr remaining', h') \<Rightarrow> classLoop T rest updatedAssets remaining' h'))"

record LiquidationResult =
  remainingDeficit :: real
  liquidatedAssets :: "ref list"

text \<open>
  \<open>liquidateForDeficit\<close>, with the rate table of the currency engine and the store as
  arguments; it returns the result or the exception, and the store after the call.
\<close>

definition liquidateForDeficit ::
  "ExchangeRates \<Rightarrow> heap \<Rightarrow> ref list \<Rightarrow> real \<Rightarrow> (js_error + LiquidationResult) \<times> heap" where
  "liquidateForDeficit T h assets deficitAmount =
     (case deepCopy h assets of
        (h0, updatedAssets) \<Rightarrow>
          (case classLoop T liquidityOrder updatedAssets deficitAmount h0 of
             (Inl e, h') \<Rightarrow> (Inl e, h')
           | (Inr remaining, h') \<Rightarrow>
               (Inr \<lparr>remainingDeficit = max 0 remaining, liquidatedAssets = updatedAssets\<rparr>, h')))"

definition isAssetLocked :: "Asset \<Rightarrow> int \<Rightarrow> bool" where
  "isAssetLocked asset currentDate =
     (case lockedUntil asset of None \<Rightarrow> False | Some until \<Rightarrow> currentDate < until)"

subsection \<open>The liquidation waterfall in the words of the specification\<close>

text \<open>
  The specification's waterfall, for comparison with the code: the positions of the asset
  list in priority order liquid, yield, volatile, illiquid (array order within a class); one
  pass over them that stops the instant the remaining deficit is not positive, sells
  \<open>min(amount, remainingDeficit)\<close> units, converts them to the base currency and reduces the
  proceeds by the penalty of the asset's class: 0%, 2%, 5%, 10%.
\<close>

definition spec_priority :: "LiquidityClass list" where
  "spec_priority = [Liquid, Yield, Volatile, Illiquid]"

definition spec_penalty :: "LiquidityClass \<Rightarrow> real" where
  "spec_penalty c =
     (if c = Liquid then 0 else if c = Yield then 2 / 100
      else if c = Volatile then 5 / 100 else 10 / 100)"

definition spec_sale_order :: "Asset list \<Rightarrow> nat list" where
  "spec_sale_order as =
     concat (map (\<lambda>c. filter (\<lambda>i. liquidityClass (as ! i) = c) [0 ..< length as]) spec_priority)"

fun spec_waterfall ::
  "ExchangeRates \<Rightarrow> nat list \<Rightarrow> real \<Rightarrow> Asset list \<Rightarrow> (js_error + real) \<times> Asset list" where
  "spec_waterfall T [] deficit as = (Inr deficit, as)"
| "spec_waterfall T (i # order) deficit as =
     (if deficit \<le> 0 then (Inr deficit, as)
      else
        let units = min (amount (as ! i)) deficit
        in (case convert T units (currency (as ! i)) ''USD'' of
              Inl e \<Rightarrow> (Inl e, as)
            | Inr base \<Rightarrow>
                spec_waterfall T order
                  (deficit - base * (1 - spec_penalty (liquidityClass (as ! i))))
                  (as[i := (as ! i)\<lparr>amount := amount (as ! i) - units\<rparr>])))"

subsection \<open>Seeded generator and revaluation\<close>

text \<open>
  The generator keeps two numbers. The bitwise operators of JavaScript work on the 32-bit
  two's complement reading of their operands: \<open>&\<close>, \<open><<\<close> and \<open>>>\<close> give a signed 32-bit
  result, \<open>>>> 0\<close> the unsigned one. The products and sums in between are exact (they stay
  far below \<open>2^53\<close>). A seed is an integer.
\<close>

definition to_int32 :: "int \<Rightarrow> int" where
  "to_int32 x = signed_take_bit 31 x"

definition js_and :: "int \<Rightarrow> int \<Rightarrow> int" where
  "js_and a b = to_int32 (and (to_int32 a) (to_int32 b))"

definition js_shr :: "int \<Rightarrow> nat \<Rightarrow> int" where
  "js_shr a k = drop_bit k (to_int32 a)"

definition js_shl :: "int \<Rightarrow> nat \<Rightarrow> int" where
  "js_shl a k = to_int32 (push_bit k (to_int32 a))"

definition js_ushr0 :: "int \<Rightarrow> int" where
  "js_ushr0 a = take_bit 32 a"

record rng =
  m_w :: int
  m_z :: int

definition mask :: int where
  "mask = 4294967295"

definition seededRNG :: "int \<Rightarrow> rng" where
  "seededRNG seed = \<lparr>m_w = seed, m_z = 987654321\<rparr>"

text \<open>One call of the closure \<open>seededRNG\<close> returns: the number drawn and the new state.\<close>

definition next_random :: "rng \<Rightarrow> real \<times> rng" where
  "next_random g =
     (let z = js_and (36969 * js_and (m_z g) 65535 + js_shr (m_z g) 16) mask;
          w = js_and (18000 * js_and (m_w g) 65535 + js_shr (m_w g) 16) mask;
          result = real_of_int (js_ushr0 (js_shl z 16 + js_and w 65535)) / 4294967296
      in (result, \<lparr>m_w = w, m_z = z\<rparr>))"

text \<open>\<open>assets.map\<close> with the generator threaded through the calls, in array order.\<close>

fun revalue_map :: "rng \<Rightarrow> Asset list \<Rightarrow> Asset list" where
  "revalue_map g [] = []"
| "revalue_map g (asset # rest) =
     (case next_random g of
        (u, g') \<Rightarrow>
          let shock = u * volatility asset * 2 - volatility asset;
              newAmount = max 0 (amount asset * (1 + shock))
          in asset\<lparr>amount := toFixed 6 newAmount\<rparr> # revalue_map g' rest)"

definition revalueAssets :: "Asset list \<Rightarrow> int \<Rightarrow> Asset list" where
  "revalueAssets assets seed = revalue_map (seededRNG seed) assets"

text \<open>The \<open>i\<close>-th number (from 0) that a generator made from \<open>seed\<close> returns.\<close>

definition rng_step :: "rng \<Rightarrow> rng" where
  "rng_step g = snd (next_random g)"

definition draw :: "int \<Rightarrow> nat \<Rightarrow> real" where
  "draw seed i = fst (next_random ((rng_step ^^ i) (seededRNG seed)))"

subsection \<open>Reading a liquidation off the store\<close>

text \<open>The objects an array of addresses points to, and the addresses a deep copy allocates.\<close>

definition input_assets :: "heap \<Rightarrow> ref list \<Rightarrow> Asset list" where
  "input_assets h assets = map (\<lambda>r. h ! r) assets"

definition fresh_refs :: "heap \<Rightarrow> ref list \<Rightarrow> ref list" where
  "fresh_refs h assets = [length h ..< length h + length assets]"

text \<open>An asset with its lock removed.\<close>

definition unlocked :: "Asset \<Rightarrow> Asset" where
  "unlocked a = a\<lparr>lockedUntil := None\<rparr>"

text \<open>The assets of the liquidation scenario, a locked deposit and a holding in sterling.\<close>

definition scenario_liquid :: Asset where
  "scenario_liquid = \<lparr>id' = ''a1'', name = ''cash'', amount = 400, currency = ''USD'',
     volatility = 0, liquidityClass = Liquid, lockedUntil = None, baseValue = None\<rparr>"

definition scenario_volatile :: Asset where
  "scenario_volatile = \<lparr>id' = ''a2'', name = ''shares'', amount = 1000, currency = ''USD'',
     volatility = 1 / 10, liquidityClass = Volatile, lockedUntil = None, baseValue = None\<rparr>"

definition locked_deposit :: Asset where
  "locked_deposit = \<lparr>id' = ''a3'', name = ''deposit'', amount = 400, currency = ''USD'',
     volatility = 0, liquidityClass = Liquid, lockedUntil = Some 2000, baseValue = None\<rparr>"

definition sterling_cash :: Asset where
  "sterling_cash = \<lparr>id' = ''a4'', name = ''sterling'', amount = 200, currency = ''GBP'',
     volatility = 0, liquidityClass = Liquid, lockedUntil = None, baseValue = None\<rparr>"

subsection \<open>Revaluation in the words of the specification\<close>

text \<open>
  A uniform value \<open>u\<close> is mapped to a shock between \<open>-volatility\<close> and \<open>+volatility\<close>; the new
  quantity is \<open>max(0, amount * (1 + shock))\<close> at six decimals.
\<close>

definition spec_shock :: "Asset \<Rightarrow> real \<Rightarrow> real" where
  "spec_shock a u = (2 * u - 1) * volatility a"

definition spec_revalued :: "Asset \<Rightarrow> real \<Rightarrow> Asset" where
  "spec_revalued a u = a\<lparr>amount := toFixed 6 (max 0 (amount a * (1 + spec_shock a u)))\<rparr>"


section \<open>Trajectories\<close>

record Liability =
  liability_id :: string
  liability_type :: string
  principalBalance :: real
  interestRate :: real
  liability_currency :: string
  minimumPayment :: "real option"
  createdAt :: int

record DailyRecord =
  day :: real
  day_balance :: real
  day_creditScore :: real
  day_assets :: "Asset list"
  vibeScore :: real
  collapsedFlag :: bool

record WalletState =
  date :: int
  balance :: real
  assets :: "Asset list"
  liabilities :: "Liability list"
  creditScore :: real
  dayNumber :: real
  history :: "DailyRecord list"

text \<open>A wallet state with a given balance and credit score, for the examples.\<close>

definition wallet :: "real \<Rightarrow> real \<Rightarrow> WalletState" where
  "wallet b score =
     \<lparr>date = 0, balance = b, assets = [], liabilities = [], creditScore = score,
      dayNumber = 0, history = []\<rparr>"


section \<open>JavaScript values in the statistics\<close>

text \<open>Sequencing of computations that may throw.\<close>

definition bind_result :: "js_error + 'a \<Rightarrow> ('a \<Rightarrow> js_error + 'b) \<Rightarrow> js_error + 'b" where
  "bind_result m f = (case m of Inl e \<Rightarrow> Inl e | Inr v \<Rightarrow> f v)"

text \<open>\<open>xs.map(f)\<close> for an \<open>f\<close> that may throw: the first exception ends the call.\<close>

fun map_result :: "('a \<Rightarrow> js_error + 'b) \<Rightarrow> 'a list \<Rightarrow> js_error + 'b list" where
  "map_result f [] = Inr []"
| "map_result f (x # xs) =
     (case f x of
        Inl e \<Rightarrow> Inl e
      | Inr y \<Rightarrow> (case map_result f xs of Inl e \<Rightarrow> Inl e | Inr ys \<Rightarrow> Inr (y # ys)))"

text \<open>\<open>xs[i]\<close> for an integer \<open>i\<close>: \<open>undefined\<close> outside the array.\<close>

definition js_index :: "real list \<Rightarrow> int \<Rightarrow> jsval" where
  "js_index xs i = (if 0 \<le> i \<and> i < int (length xs) then Num (xs ! nat i) else Undefined)"

text \<open>\<open>xs.slice(0, e)\<close>: a negative end counts from the end of the array.\<close>

definition js_slice0 :: "'a list \<Rightarrow> int \<Rightarrow> 'a list" where
  "js_slice0 xs e =
     (let len = int (length xs);
          final = (if e < 0 then max (len + e) 0 else min e len)
      in take (nat final) xs)"

text \<open>The quotient \<open>a / b\<close> of two finite numbers.\<close>

definition js_div :: "real \<Rightarrow> real \<Rightarrow> jsval" where
  "js_div a b =
     (if b \<noteq> 0 then Num (a / b)
      else if a = 0 then NaN
      else if 0 < a then PosInfinity else NegInfinity)"

text \<open>The quotient \<open>v / b\<close> of a value by a finite number that is not negative.\<close>

fun js_over :: "jsval \<Rightarrow> real \<Rightarrow> jsval" where
  "js_over (Num a) b = js_div a b"
| "js_over PosInfinity b = PosInfinity"
| "js_over NegInfinity b = NegInfinity"
| "js_over NaN b = NaN"
| "js_over Undefined b = NaN"

text \<open>\<open>xs.reduce((a, b) => a + b, 0)\<close> and the mean \<open>that / xs.length\<close>.\<close>

definition js_sum :: "real list \<Rightarrow> real" where
  "js_sum xs = foldl (\<lambda>a b. a + b) 0 xs"

definition js_mean :: "real list \<Rightarrow> jsval" where
  "js_mean xs = js_div (js_sum xs) (real (length xs))"

text \<open>
  Arithmetic on values: \<open>undefined\<close> converts to \<open>NaN\<close>, \<open>NaN\<close> is contagious, and the
  infinities follow IEEE.
\<close>

fun js_neg :: "jsval \<Rightarrow> jsval" where
  "js_neg (Num x) = Num (- x)"
| "js_neg PosInfinity = NegInfinity"
| "js_neg NegInfinity = PosInfinity"
| "js_neg NaN = NaN"
| "js_neg Undefined = NaN"

fun js_plus :: "jsval \<Rightarrow> jsval \<Rightarrow> jsval" where
  "js_plus (Num a) (Num b) = Num (a + b)"
| "js_plus (Num a) PosInfinity = PosInfinity"
| "js_plus (Num a) NegInfinity = NegInfinity"
| "js_plus PosInfinity (Num b) = PosInfinity"
| "js_plus NegInfinity (Num b) = NegInfinity"
| "js_plus PosInfinity PosInfinity = PosInfinity"
| "js_plus NegInfinity NegInfinity = NegInfinity"
| "js_plus _ _ = NaN"

definition js_minus :: "jsval \<Rightarrow> jsval \<Rightarrow> jsval" where
  "js_minus a b = js_plus a (js_neg b)"

text \<open>\<open>Math.pow(v, 2)\<close> and \<open>Math.sqrt(v)\<close>.\<close>

fun js_square :: "jsval \<Rightarrow> jsval" where
  "js_square (Num x) = Num (x * x)"
| "js_square PosInfinity = PosInfinity"
| "js_square NegInfinity = PosInfinity"
| "js_square NaN = NaN"
| "js_square Undefined = NaN"

fun js_sqrt :: "jsval \<Rightarrow> jsval" where
  "js_sqrt (Num x) = (if x < 0 then NaN else Num (sqrt x))"
| "js_sqrt PosInfinity = PosInfinity"
| "js_sqrt NegInfinity = NaN"
| "js_sqrt NaN = NaN"
| "js_sqrt Undefined = NaN"

text \<open>
  \<open>parseFloat(v.toFixed(d))\<close>: a method call on \<open>undefined\<close> throws a \<open>TypeError\<close>;
  \<open>NaN\<close> and the infinities print and read back as themselves.
\<close>

fun js_toFixed :: "nat \<Rightarrow> jsval \<Rightarrow> js_error + jsval" where
  "js_toFixed d (Num x) = Inr (Num (toFixed d x))"
| "js_toFixed d Undefined = Inl TypeError"
| "js_toFixed d v = Inr v"

text \<open>The comparison \<open>a <= b\<close>: false as soon as an operand is \<open>NaN\<close> or \<open>undefined\<close>.\<close>

fun js_le :: "jsval \<Rightarrow> jsval \<Rightarrow> bool" where
  "js_le (Num a) (Num b) = (a \<le> b)"
| "js_le (Num a) PosInfinity = True"
| "js_le NegInfinity (Num b) = True"
| "js_le NegInfinity NegInfinity = True"
| "js_le NegInfinity PosInfinity = True"
| "js_le PosInfinity PosInfinity = True"
| "js_le _ _ = False"


section \<open>RiskEngine\<close>

text \<open>
  \<open>t[t.length - 1]\<close> is \<open>undefined\<close> for a trajectory without days, and reading a field of
  \<open>undefined\<close> throws a \<open>TypeError\<close>.
\<close>

definition last_state :: "WalletState list \<Rightarrow> WalletState option" where
  "last_state t = (if t = [] then None else Some (t ! (length t - 1)))"

definition final_balance :: "WalletState list \<Rightarrow> js_error + real" where
  "final_balance t = (case last_state t of None \<Rightarrow> Inl TypeError | Some s \<Rightarrow> Inr (balance s))"

definition calculateVaR :: "WalletState list list \<Rightarrow> real \<Rightarrow> js_error + jsval" where
  "calculateVaR trajectories percentile =
     bind_result (map_result final_balance trajectories) (\<lambda>finalBalances.
       let sorted = sort finalBalances;
           index = \<lfloor>real (length sorted) * percentile\<rfloor>
       in Inr (js_index sorted (max 0 index)))"

definition calculateCVaR :: "WalletState list list \<Rightarrow> real \<Rightarrow> js_error + jsval" where
  "calculateCVaR trajectories percentile =
     bind_result (map_result final_balance trajectories) (\<lambda>finalBalances.
       let sorted = sort finalBalances;
           cutoffIndex = \<lfloor>real (length sorted) * percentile\<rfloor>;
           worstValues = js_slice0 sorted (cutoffIndex + 1)
       in Inr (js_mean worstValues))"

text \<open>The scan of one trajectory in \<open>calculateCollapseProbability\<close>, day by day.\<close>

record collapse_scan =
  hasCollapsed :: bool
  collapsedDay :: int
  recoveredAfter :: bool

fun scan_days ::
  "WalletState list \<Rightarrow> nat \<Rightarrow> collapse_scan \<Rightarrow> real list \<Rightarrow> collapse_scan \<times> real list" where
  "scan_days [] dayIndex s collapseTimings = (s, collapseTimings)"
| "scan_days (state # rest) dayIndex s collapseTimings =
     (let collapses = (balance state < 0 \<and> \<not> hasCollapsed s);
          s1 = (if collapses then s\<lparr>hasCollapsed := True, collapsedDay := int dayIndex\<rparr> else s);
          timings1 = (if collapses then collapseTimings @ [real dayIndex] else collapseTimings);
          s2 = (if hasCollapsed s1 \<and> collapsedDay s1 > - 1 \<and> balance state > 0
                then s1\<lparr>recoveredAfter := True\<rparr> else s1)
      in scan_days rest (Suc dayIndex) s2 timings1)"

fun scan_trajectories ::
  "WalletState list list \<Rightarrow> real list \<Rightarrow> nat \<Rightarrow> real list \<times> nat" where
  "scan_trajectories [] collapseTimings recoveredCount = (collapseTimings, recoveredCount)"
| "scan_trajectories (trajectory # rest) collapseTimings recoveredCount =
     (case scan_days trajectory 0
             \<lparr>hasCollapsed = False, collapsedDay = - 1, recoveredAfter = False\<rparr> collapseTimings of
        (s, timings) \<Rightarrow>
          scan_trajectories rest timings
            (if recoveredAfter s then recoveredCount + 1 else recoveredCount))"

text \<open>\<open>calculateMaxDrawdown\<close>: \<open>trajectory[0].balance\<close> throws on an empty trajectory.\<close>

fun drawdown_days :: "WalletState list \<Rightarrow> real \<Rightarrow> real \<Rightarrow> real \<Rightarrow> real" where
  "drawdown_days [] peak trough worstDrawdown = worstDrawdown"
| "drawdown_days (state # rest) peak trough worstDrawdown =
     (let peak1 = (if balance state > peak then balance state else peak);
          trough1 = (if balance state < trough then balance state else trough);
          drawdown = (if peak1 > 0 then (peak1 - trough1) / peak1 else 0);
          worst1 = (if drawdown > worstDrawdown then drawdown else worstDrawdown)
      in drawdown_days rest peak1 trough1 worst1)"

fun drawdown_trajectories :: "WalletState list list \<Rightarrow> real \<Rightarrow> js_error + real" where
  "drawdown_trajectories [] worstDrawdown = Inr worstDrawdown"
| "drawdown_trajectories (trajectory # rest) worstDrawdown =
     (case trajectory of
        [] \<Rightarrow> Inl TypeError
      | first # _ \<Rightarrow>
          drawdown_trajectories rest
            (drawdown_days trajectory (balance first) (balance first) worstDrawdown))"

definition calculateMaxDrawdown :: "WalletState list list \<Rightarrow> js_error + real" where
  "calculateMaxDrawdown trajectories =
     bind_result (drawdown_trajectories trajectories 0) (\<lambda>worstDrawdown.
       Inr (toFixed 2 (worstDrawdown * 100)))"

record RiskMetrics =
  collapseProbability :: jsval
  collapseTimings :: "real list"
  averageCollapsDay :: real
  recoveryRate :: real
  maxDrawdown :: real

text \<open>\<open>Math.round\<close>: the nearest integer, a tie going up.\<close>

definition js_round :: "real \<Rightarrow> real" where
  "js_round x = of_int \<lfloor>x + 1 / 2\<rfloor>"

definition calculateCollapseProbability :: "WalletState list list \<Rightarrow> js_error + RiskMetrics" where
  "calculateCollapseProbability trajectories =
     (case scan_trajectories trajectories [] 0 of
        (timings, recoveredCount) \<Rightarrow>
          let probability = js_div (real (length timings)) (real (length trajectories));
              average = (if length timings > 0 then js_sum timings / real (length timings) else - 1);
              recovery = (if length timings > 0 then real recoveredCount / real (length timings) else 1)
          in bind_result (js_toFixed 4 probability) (\<lambda>probability4.
             bind_result (calculateMaxDrawdown trajectories) (\<lambda>drawdown.
               Inr \<lparr>collapseProbability = probability4,
                    collapseTimings = timings,
                    averageCollapsDay = (if average > 0 then js_round average else 0),
                    recoveryRate = toFixed 4 recovery,
                    maxDrawdown = drawdown\<rparr>)))"


section \<open>StatsEngine\<close>

record BalanceStats =
  mean :: jsval
  median :: jsval
  percentile5 :: jsval
  percentile95 :: jsval
  min' :: jsval
  max' :: jsval
  stdDev :: jsval

text \<open>
  \<open>calculateBalanceStats\<close>. The fields of the returned object are computed in the order
  they are written, so the first \<open>toFixed\<close> on \<open>undefined\<close> throws.
\<close>

definition calculateBalanceStats :: "real list \<Rightarrow> js_error + BalanceStats" where
  "calculateBalanceStats balances =
     (let sorted = sort balances;
          n = int (length sorted);
          mean0 = js_mean balances;
          median0 = js_index sorted \<lfloor>real (length sorted) / 2\<rfloor>;
          p5 = js_index sorted \<lfloor>real (length sorted) * (5 / 100)\<rfloor>;
          p95 = js_index sorted \<lfloor>real (length sorted) * (95 / 100)\<rfloor>;
          lo = js_index sorted 0;
          hi = js_index sorted (n - 1);
          squares = foldl (\<lambda>sum b. js_plus sum (js_square (js_minus (Num b) mean0))) (Num 0) balances;
          variance = js_over squares (real (length balances));
          deviation = js_sqrt variance
      in bind_result (js_toFixed 2 mean0) (\<lambda>mean2.
         bind_result (js_toFixed 2 median0) (\<lambda>median2.
         bind_result (js_toFixed 2 p5) (\<lambda>p5'.
         bind_result (js_toFixed 2 p95) (\<lambda>p95'.
         bind_result (js_toFixed 2 lo) (\<lambda>lo2.
         bind_result (js_toFixed 2 hi) (\<lambda>hi2.
         bind_result (js_toFixed 2 deviation) (\<lambda>deviation2.
           Inr \<lparr>mean = mean2, median = median2, percentile5 = p5', percentile95 = p95',
                min' = lo2, max' = hi2, stdDev = deviation2\<rparr>))))))))"

definition final_creditScore :: "WalletState list \<Rightarrow> js_error + real" where
  "final_creditScore t =
     (case last_state t of None \<Rightarrow> Inl TypeError | Some s \<Rightarrow> Inr (creditScore s))"

record ('c, 'a, 'v) StatisticsOutput =
  finalBalance :: BalanceStats
  creditScoreStats :: 'c
  assetStats :: 'a
  risk :: RiskMetrics
  vibe :: 'v

text \<open>
  \<open>generateStatistics\<close>. The credit statistics, the asset statistics and the vibe engine
  (whose pet message is chosen with \<open>Math.random\<close>) are computed after the balance
  statistics; they are arguments here, each a computation that may throw.
\<close>

definition generateStatistics ::
  "(WalletState list list \<Rightarrow> real list \<Rightarrow> js_error + 'c) \<Rightarrow>
   (WalletState list list \<Rightarrow> js_error + 'a) \<Rightarrow>
   (WalletState list list \<Rightarrow> js_error + 'v) \<Rightarrow>
   WalletState list list \<Rightarrow> js_error + ('c, 'a, 'v) StatisticsOutput" where
  "generateStatistics calculateCreditStats calculateAssetStats calculateAverageVibe trajectories =
     bind_result (map_result final_balance trajectories) (\<lambda>finalBalances.
     bind_result (map_result final_creditScore trajectories) (\<lambda>finalCreditScores.
     bind_result (calculateBalanceStats finalBalances) (\<lambda>balanceStats.
     bind_result (calculateCreditStats trajectories finalCreditScores) (\<lambda>creditStats.
     bind_result (calculateAssetStats trajectories) (\<lambda>assetStats'.
     bind_result (calculateCollapseProbability trajectories) (\<lambda>riskMetrics.
     bind_result (calculateAverageVibe trajectories) (\<lambda>vibeState.
       Inr \<lparr>finalBalance = balanceStats, creditScoreStats = creditStats,
            assetStats = assetStats', risk = riskMetrics, vibe = vibeState\<rparr>)))))))"



section \<open>Properties of the currency engine\<close>

lemma indirect_loop_None:
  "indirect_loop T from to xs = None \<longleftrightarrow>
     \<not> (\<exists>X \<in> set xs. X \<noteq> from \<and> X \<noteq> to \<and> pairs T (pair_key from X) \<noteq> None \<and> pairs T (pair_key X to) \<noteq> None)"
  by (induction xs) (auto split: option.splits)

lemma indirect_loop_pos:
  "positive_rates T \<Longrightarrow> indirect_loop T from to xs = Some r \<Longrightarrow> 0 < r"
  by (induction xs) (auto simp: positive_rates_def split: option.splits if_splits)

lemma positive_scenario: "positive_rates scenario_rates"
  by (auto simp: positive_rates_def scenario_rates_def split: if_splits)

lemma scenario_usd_pkr: "convert scenario_rates 100 ''USD'' ''PKR'' = Inr (278484 / 10)"
    by (simp add: convert_def scenario_rates_def pair_key_def getIndirectRate_def intermediaries_def
        truncateToPrecision_def toFixed_def precision_def)
lemma scenario_usd_pkr_value: "truncateToPrecision (100 * (92 / 100) * (3027 / 10)) = 278484 / 10"
    by (simp add: truncateToPrecision_def toFixed_def precision_def)
lemma scenario_pkr_gbp: "convert scenario_rates 100 ''PKR'' ''GBP'' = Inl (Error ''No exchange rate found for PKR/GBP'')"
    by (simp add: convert_def scenario_rates_def pair_key_def getIndirectRate_def intermediaries_def
        rate_not_found_def)

lemma convert_fails_iff:
  assumes "from \<noteq> to" and "positive_rates T"
  shows "((\<exists>e. convert T x from to = Inl e) \<longleftrightarrow>
            pairs T (pair_key from to) = None \<and> pairs T (pair_key to from) = None \<and>
            \<not> one_hop_path T from to)"
proof -
  have pos: "\<And>r. getIndirectRate T from to = Some r \<Longrightarrow> r \<noteq> 0"
    using indirect_loop_pos [OF assms(2)] by (fastforce simp: getIndirectRate_def)
  have none: "getIndirectRate T from to = None \<longleftrightarrow> \<not> one_hop_path T from to"
    unfolding getIndirectRate_def one_hop_path_def intermediaries_def
    by (rule indirect_loop_None)
  show ?thesis
    using assms(1) pos none by (auto simp: convert_def Let_def split: option.splits)
qed

lemma convert_error_names_pair:
  assumes "from \<noteq> to" 
  shows "\<forall>e. convert T x from to = Inl e \<longrightarrow>
               e = Error (''No exchange rate found for '' @ from @ ''/'' @ to)"
    using assms(1) by (auto simp: convert_def Let_def rate_not_found_def pair_key_def split: option.splits if_splits)

lemma toFixed_close: "\<bar>toFixed d v - v\<bar> \<le> 1 / (2 * 10 ^ d)"
proof (cases "10 ^ 21 \<le> \<bar>v\<bar>")
  case True then show ?thesis by (simp add: toFixed_def)
next
  case False
  define y where "y = \<bar>v\<bar> * 10 ^ d"
  define n where "n = \<lfloor>y + 1 / 2\<rfloor>"
  have p: "(0::real) < 10 ^ d" by simp
  have n1: "of_int n \<le> y + 1 / 2" and n2: "y + 1 / 2 < of_int n + 1"
    unfolding n_def by linarith+
  have h: "\<bar>of_int n - y\<bar> \<le> 1 / 2" using n1 n2 by linarith
  have "\<bar>of_int n - y\<bar> / 10 ^ d \<le> (1 / 2) / 10 ^ d"
    by (rule divide_right_mono [OF h]) simp
  then have k: "\<bar>of_int n - y\<bar> / 10 ^ d \<le> 1 / (2 * 10 ^ d)" by simp
  have v: "\<bar>v\<bar> = y / 10 ^ d" by (simp add: y_def)
  have "toFixed d v - v = sgn v * (of_int n / 10 ^ d) - sgn v * \<bar>v\<bar>"
    using False by (simp add: toFixed_def n_def y_def sgn_mult_abs)
  also have "\<dots> = sgn v * ((of_int n - y) / 10 ^ d)"
    by (simp only: v diff_divide_distrib right_diff_distrib)
  finally have "\<bar>toFixed d v - v\<bar> = \<bar>sgn v\<bar> * (\<bar>of_int n - y\<bar> / 10 ^ d)"
    by (simp add: abs_mult)
  also have "\<dots> \<le> 1 * (\<bar>of_int n - y\<bar> / 10 ^ d)"
    by (rule mult_right_mono) (simp_all add: abs_sgn_eq)
  finally show ?thesis using k by linarith
qed

lemma toFixed_grid:
  assumes "\<bar>v\<bar> < 10 ^ 21"
  shows "\<exists>n::int. toFixed d v = of_int n / 10 ^ d"
proof -
  let ?m = "\<lfloor>\<bar>v\<bar> * 10 ^ d + 1 / 2\<rfloor>"
  have "toFixed d v = of_int ((if v < 0 then - 1 else if v = 0 then 0 else 1) * ?m) / 10 ^ d"
    using assms by (simp add: toFixed_def sgn_if)
  then show ?thesis by blast
qed

lemma toFixed_nonneg: "0 \<le> v \<Longrightarrow> 0 \<le> toFixed d v"
  by (simp add: toFixed_def sgn_if)

lemma rounding_example: "convert initial_rates (19999999 / 10000000) ''USD'' ''USD'' = Inr 2"
  by (simp add: convert_def truncateToPrecision_def toFixed_def precision_def)
lemma truncation_example: "truncate_digits 6 (19999999 / 10000000) = 1999999 / 1000000"
  by (simp add: truncate_digits_def)


lemma convert_prefers_usd:
  assumes "from \<noteq> to" and "from \<noteq> ''USD''" and "to \<noteq> ''USD''"
    and "pairs T (pair_key from to) = None" and "pairs T (pair_key to from) = None"
    and "pairs T (pair_key from ''USD'') = Some r1" and "pairs T (pair_key ''USD'' to) = Some r2"
    and "r1 * r2 \<noteq> 0"
  shows "convert T x from to = Inr (truncateToPrecision (x * (r1 * r2)))"
  using assms by (simp add: convert_def Let_def getIndirectRate_def intermediaries_def)

text \<open>
  C5. For different currencies and a table of positive rates (the data model's invariant),
  \<open>convert\<close> throws exactly when the table holds no direct pair, no reverse pair, and no
  intermediary among USD, EUR (other than the two currencies) with both forward legs; the
  exception then carries the requested pair. When both legs through USD are stored (and no
  direct or reverse pair), the rate is their product, whatever EUR offers. On the table holding only USD/EUR = 0.92 and
  EUR/PKR = 302.7, converting 100 USD to PKR gives 100 * 0.92 * 302.7 at six decimals, that is
  27848.4, and converting 100 PKR to GBP throws for the pair PKR/GBP.
\<close>

theorem convert_rate_not_found_iff:
  assumes "from \<noteq> to" and "positive_rates T"
  shows "((\<exists>e. convert T x from to = Inl e) \<longleftrightarrow>
            pairs T (pair_key from to) = None \<and> pairs T (pair_key to from) = None \<and>
            \<not> one_hop_path T from to)
         \<and> (\<forall>e. convert T x from to = Inl e \<longrightarrow>
               e = Error (''No exchange rate found for '' @ from @ ''/'' @ to))
         \<and> (\<forall>r1 r2. from \<noteq> ''USD'' \<and> to \<noteq> ''USD'' \<and>
               pairs T (pair_key from to) = None \<and> pairs T (pair_key to from) = None \<and>
               pairs T (pair_key from ''USD'') = Some r1 \<and> pairs T (pair_key ''USD'' to) = Some r2
               \<longrightarrow> convert T x from to = Inr (truncateToPrecision (x * (r1 * r2))))
         \<and> convert scenario_rates 100 ''USD'' ''PKR'' =
               Inr (truncateToPrecision (100 * (92 / 100) * (3027 / 10)))
         \<and> convert scenario_rates 100 ''USD'' ''PKR'' = Inr (278484 / 10)
         \<and> convert scenario_rates 100 ''PKR'' ''GBP'' =
               Inl (Error ''No exchange rate found for PKR/GBP'')"
proof (intro conjI)
  show "(\<exists>e. convert T x from to = Inl e) \<longleftrightarrow>
            pairs T (pair_key from to) = None \<and> pairs T (pair_key to from) = None \<and>
            \<not> one_hop_path T from to"
    by (rule convert_fails_iff [OF assms])
  show "\<forall>e. convert T x from to = Inl e \<longrightarrow>
               e = Error (''No exchange rate found for '' @ from @ ''/'' @ to)"
    by (rule convert_error_names_pair [OF assms(1)])
  show "\<forall>r1 r2. from \<noteq> ''USD'' \<and> to \<noteq> ''USD'' \<and>
               pairs T (pair_key from to) = None \<and> pairs T (pair_key to from) = None \<and>
               pairs T (pair_key from ''USD'') = Some r1 \<and> pairs T (pair_key ''USD'' to) = Some r2
               \<longrightarrow> convert T x from to = Inr (truncateToPrecision (x * (r1 * r2)))"
  proof (intro allI impI)
    fix r1 r2
    assume a: "from \<noteq> ''USD'' \<and> to \<noteq> ''USD'' \<and>
               pairs T (pair_key from to) = None \<and> pairs T (pair_key to from) = None \<and>
               pairs T (pair_key from ''USD'') = Some r1 \<and> pairs T (pair_key ''USD'' to) = Some r2"
    then have "0 < r1" and "0 < r2" using assms(2) by (auto simp: positive_rates_def)
    then have "r1 * r2 \<noteq> 0" by simp
    with a assms(1) show "convert T x from to = Inr (truncateToPrecision (x * (r1 * r2)))"
      by (intro convert_prefers_usd) simp_all
  qed
  show "convert scenario_rates 100 ''USD'' ''PKR'' =
               Inr (truncateToPrecision (100 * (92 / 100) * (3027 / 10)))"
    by (simp only: scenario_usd_pkr scenario_usd_pkr_value)
  show "convert scenario_rates 100 ''USD'' ''PKR'' = Inr (278484 / 10)"
    by (rule scenario_usd_pkr)
  show "convert scenario_rates 100 ''PKR'' ''GBP'' =
               Inl (Error ''No exchange rate found for PKR/GBP'')"
    by (rule scenario_pkr_gbp)
qed

theorem convert_rate_not_found_iff_witness:
  "''PKR'' \<noteq> ''GBP'' \<and> positive_rates scenario_rates \<and>
   (\<exists>e. convert scenario_rates 100 ''PKR'' ''GBP'' = Inl e) \<and>
   pairs scenario_rates (pair_key ''PKR'' ''GBP'') = None \<and>
   pairs scenario_rates (pair_key ''GBP'' ''PKR'') = None \<and>
   \<not> one_hop_path scenario_rates ''PKR'' ''GBP''"
proof -
  have h1: "''PKR'' \<noteq> ''GBP''" by simp
  have e: "\<exists>e. convert scenario_rates 100 ''PKR'' ''GBP'' = Inl e"
    by (simp add: scenario_pkr_gbp)
  from convert_rate_not_found_iff [OF h1 positive_scenario, of 100] e
  have "pairs scenario_rates (pair_key ''PKR'' ''GBP'') = None \<and>
        pairs scenario_rates (pair_key ''GBP'' ''PKR'') = None \<and>
        \<not> one_hop_path scenario_rates ''PKR'' ''GBP''"
    by blast
  with h1 positive_scenario e show ?thesis by blast
qed

text \<open>
  C6, as the claim states it, fails: \<open>convert\<close> does not cut the amount off after six
  decimals. Converting 1.9999999 USD to USD gives 2, while the amount truncated to six
  decimals is 1.999999.
\<close>

theorem convert_identity_not_truncation:
  "convert initial_rates (19999999 / 10000000) ''USD'' ''USD'' = Inr 2 \<and>
   truncate_digits 6 (19999999 / 10000000) = 1999999 / 1000000 \<and>
   convert initial_rates (19999999 / 10000000) ''USD'' ''USD'' \<noteq>
     Inr (truncate_digits 6 (19999999 / 10000000))"
  by (simp add: rounding_example truncation_example)

lemma positive_initial: "positive_rates initial_rates"
  by (auto simp: positive_rates_def initial_rates_def split: if_splits)

lemma one_hop_pos:
  "positive_rates T \<Longrightarrow> spec_one_hop T from to X = Some r \<Longrightarrow> r \<noteq> 0"
  unfolding spec_one_hop_def positive_rates_def
  by (fastforce split: if_splits option.splits)

lemma getIndirectRate_spec:
  "getIndirectRate T from to =
     (case spec_one_hop T from to ''USD'' of Some r \<Rightarrow> Some r
      | None \<Rightarrow> spec_one_hop T from to ''EUR'')"
  by (simp add: getIndirectRate_def intermediaries_def spec_one_hop_def split: option.splits)

lemma convert_spec_rate:
  assumes "positive_rates T" and "from \<noteq> to"
  shows "convert T x from to =
          (case spec_rate T from to of
             None \<Rightarrow> Inl (Error (''No exchange rate found for '' @ from @ ''/'' @ to))
           | Some rate \<Rightarrow> Inr (toFixed 6 (x * rate)))"
proof (cases "pairs T (pair_key from to)")
  case (Some r)
  with assms(2) show ?thesis
    by (simp add: convert_def spec_rate_def truncateToPrecision_def precision_def)
next
  case None
  note direct = None
  show ?thesis
  proof (cases "pairs T (pair_key to from)")
    case (Some r)
    with assms(2) direct show ?thesis
      by (simp add: convert_def spec_rate_def truncateToPrecision_def precision_def)
  next
    case None
    note reverse = None
    show ?thesis
    proof (cases "getIndirectRate T from to")
      case None
      with assms(2) direct reverse show ?thesis
        by (simp add: convert_def spec_rate_def getIndirectRate_spec [symmetric]
            rate_not_found_def pair_key_def)
    next
      case (Some r)
      then have "r \<noteq> 0"
        using one_hop_pos [OF assms(1)]
        by (auto simp: getIndirectRate_spec split: option.splits)
      with Some assms(2) direct reverse show ?thesis
        by (simp add: convert_def spec_rate_def getIndirectRate_spec [symmetric]
            truncateToPrecision_def precision_def)
    qed
  qed
qed

lemma small_rounds_up: "convert initial_rates (6 / 10 ^ 7) ''USD'' ''EUR'' = Inr (1 / 10 ^ 6)"
  by (simp add: convert_def initial_rates_def pair_key_def truncateToPrecision_def
        toFixed_def precision_def)

lemma small_truncates: "truncate_digits 6 (6 / 10 ^ 7 * (92 / 100)) = 0"
  by (simp add: truncate_digits_def)


text \<open>
  C6, amended. For every amount and currency, \<open>convert(x, A, A)\<close> returns \<open>x.toFixed(6)\<close>
  whatever the rate table holds. Between different currencies, on a table of positive rates,
  \<open>convert\<close> returns \<open>(amount * rate).toFixed(6)\<close> for the rate the specification
  resolves (direct, else reciprocal of the reverse pair, else the product through USD, else
  through EUR), and throws when there is none. \<open>toFixed(6)\<close> rounds to the nearest multiple of
  \<open>10^-6\<close> and does not truncate: the result is within half a unit of the sixth decimal of
  its argument, and below \<open>10^21\<close> it is a whole number of millionths; 0.0000006 USD converts
  to 0.000001 EUR, where the product 0.000000552 truncated to six decimals is 0.
\<close>

theorem convert_identity_rounds:
  "convert T x A A = Inr (toFixed 6 x)
   \<and> (positive_rates T \<and> from \<noteq> to \<longrightarrow>
        convert T x from to =
          (case spec_rate T from to of
             None \<Rightarrow> Inl (Error (''No exchange rate found for '' @ from @ ''/'' @ to))
           | Some rate \<Rightarrow> Inr (toFixed 6 (x * rate))))
   \<and> \<bar>toFixed 6 v - v\<bar> \<le> 1 / (2 * 10 ^ 6)
   \<and> (\<bar>v\<bar> < 10 ^ 21 \<longrightarrow> (\<exists>n::int. toFixed 6 v = of_int n / 10 ^ 6))
   \<and> convert initial_rates (6 / 10 ^ 7) ''USD'' ''EUR'' = Inr (1 / 10 ^ 6)
   \<and> truncate_digits 6 (6 / 10 ^ 7 * (92 / 100)) = 0"
proof (intro conjI)
  show "convert T x A A = Inr (toFixed 6 x)"
    by (simp add: convert_def truncateToPrecision_def precision_def)
  show "positive_rates T \<and> from \<noteq> to \<longrightarrow>
        convert T x from to =
          (case spec_rate T from to of
             None \<Rightarrow> Inl (Error (''No exchange rate found for '' @ from @ ''/'' @ to))
           | Some rate \<Rightarrow> Inr (toFixed 6 (x * rate)))"
  proof
    assume "positive_rates T \<and> from \<noteq> to"
    then have "positive_rates T" and "from \<noteq> to" by simp_all
    then show "convert T x from to =
          (case spec_rate T from to of
             None \<Rightarrow> Inl (Error (''No exchange rate found for '' @ from @ ''/'' @ to))
           | Some rate \<Rightarrow> Inr (toFixed 6 (x * rate)))"
      by (rule convert_spec_rate)
  qed
  show "\<bar>toFixed 6 v - v\<bar> \<le> 1 / (2 * 10 ^ 6)"
    by (rule toFixed_close)
  show "\<bar>v\<bar> < 10 ^ 21 \<longrightarrow> (\<exists>n::int. toFixed 6 v = of_int n / 10 ^ 6)"
    by (rule impI) (rule toFixed_grid)
  show "convert initial_rates (6 / 10 ^ 7) ''USD'' ''EUR'' = Inr (1 / 10 ^ 6)"
    by (rule small_rounds_up)
  show "truncate_digits 6 (6 / 10 ^ 7 * (92 / 100)) = 0"
    by (rule small_truncates)
qed

theorem convert_identity_rounds_witness:
  "positive_rates initial_rates \<and> ''GBP'' \<noteq> ''USD'' \<and>
   spec_rate initial_rates ''GBP'' ''USD'' = Some (1 / (79 / 100)) \<and>
   convert initial_rates 79 ''GBP'' ''USD'' = Inr (toFixed 6 (79 * (1 / (79 / 100)))) \<and>
   toFixed 6 (79 * (1 / (79 / 100))) = 100 \<and>
   \<bar>19999999 / 10000000\<bar> < (10::real) ^ 21 \<and>
   (\<exists>n::int. toFixed 6 (19999999 / 10000000) = of_int n / 10 ^ 6)"
proof -
  have d: "''GBP'' \<noteq> ''USD''" by simp
  have r: "spec_rate initial_rates ''GBP'' ''USD'' = Some (1 / (79 / 100))"
    by (simp add: spec_rate_def initial_rates_def pair_key_def)
  have t: "toFixed 6 (79 * (1 / (79 / 100))) = 100"
    by (simp add: toFixed_def)
  have b: "\<bar>19999999 / 10000000\<bar> < (10::real) ^ 21" by simp
  note inst = convert_identity_rounds [of initial_rates 79 "''USD''" "''GBP''" "''USD''"
      "19999999 / 10000000"]
  from inst positive_initial d
  have "convert initial_rates 79 ''GBP'' ''USD'' =
          (case spec_rate initial_rates ''GBP'' ''USD'' of
             None \<Rightarrow> Inl (Error (''No exchange rate found for '' @ ''GBP'' @ ''/'' @ ''USD''))
           | Some rate \<Rightarrow> Inr (toFixed 6 (79 * rate)))"
    by blast
  then have c: "convert initial_rates 79 ''GBP'' ''USD'' = Inr (toFixed 6 (79 * (1 / (79 / 100))))"
    unfolding r by simp
  from inst b have g: "\<exists>n::int. toFixed 6 (19999999 / 10000000) = of_int n / 10 ^ 6"
    by blast
  from positive_initial d r c t b g show ?thesis by blast
qed


section \<open>Properties of the liquidation\<close>

lemma penalty_agree: "liquidationPenalty c = spec_penalty c"
  by (cases c) (simp_all add: liquidationPenalty_def spec_penalty_def)

lemma spec_waterfall_covered: "deficit \<le> 0 \<Longrightarrow> spec_waterfall T order deficit as = (Inr deficit, as)"
  by (cases order) simp_all

lemma spec_waterfall_append:
  "spec_waterfall T (xs @ ys) deficit as =
     (case spec_waterfall T xs deficit as of
        (Inl e, as') \<Rightarrow> (Inl e, as')
      | (Inr deficit', as') \<Rightarrow> spec_waterfall T ys deficit' as')"
proof (induction xs arbitrary: deficit as)
  case Nil
  show ?case by simp
next
  case (Cons i xs)
  show ?case
  proof (cases "deficit \<le> 0")
    case True
    then show ?thesis by (simp add: spec_waterfall_covered)
  next
    case False
    then show ?thesis
      by (cases "convert T (min (amount (as ! i)) deficit) (currency (as ! i)) ''USD''")
         (simp_all add: Let_def Cons.IH)
  qed
qed

lemma spec_waterfall_shape:
  "spec_waterfall T order deficit as = (res, as') \<Longrightarrow>
     length as' = length as \<and> map liquidityClass as' = map liquidityClass as"
proof (induction order arbitrary: deficit as)
  case Nil
  then show ?case by simp
next
  case (Cons i order)
  show ?case
  proof (cases "deficit \<le> 0")
    case True
    with Cons.prems show ?thesis by simp
  next
    case False
    show ?thesis
    proof (cases "convert T (min (amount (as ! i)) deficit) (currency (as ! i)) ''USD''")
      case (Inl e)
      with False Cons.prems show ?thesis by (simp add: Let_def)
    next
      case (Inr base)
      let ?as = "as[i := (as ! i)\<lparr>amount := amount (as ! i) - min (amount (as ! i)) deficit\<rparr>]"
      from Inr False Cons.prems
      have "spec_waterfall T order (deficit - base * (1 - spec_penalty (liquidityClass (as ! i)))) ?as = (res, as')"
        by (simp add: Let_def)
      from Cons.IH [OF this]
      have "length as' = length ?as" and "map liquidityClass as' = map liquidityClass ?as" by simp_all
      moreover have "map liquidityClass ?as = map liquidityClass as"
      proof (cases "i < length as")
        case True
        then show ?thesis by (simp add: map_update list_update_same_conv)
      next
        case False
        then have "length as \<le> i" by simp
        then show ?thesis by (simp only: list_update_beyond)
      qed
      ultimately show ?thesis by simp
    qed
  qed
qed

lemma sellClass_waterfall:
  "\<forall>i \<in> set order. i < length as \<and> liquidityClass (as ! i) = c \<Longrightarrow>
   sellClass T c (map (\<lambda>i. length pre + i) order) deficit (pre @ as) =
     (case spec_waterfall T order deficit as of (res, as') \<Rightarrow> (res, pre @ as'))"
proof (induction order arbitrary: deficit as)
  case Nil
  show ?case by simp
next
  case (Cons i order)
  from Cons.prems have i: "i < length as" and c: "liquidityClass (as ! i) = c" by simp_all
  show ?case
  proof (cases "deficit \<le> 0")
    case True
    then show ?thesis by simp
  next
    case False
    show ?thesis
    proof (cases "convert T (min (amount (as ! i)) deficit) (currency (as ! i)) ''USD''")
      case (Inl e)
      with False show ?thesis by (simp add: Let_def)
    next
      case (Inr base)
      let ?as = "as[i := (as ! i)\<lparr>amount := amount (as ! i) - min (amount (as ! i)) deficit\<rparr>]"
      have "\<forall>j \<in> set order. j < length ?as \<and> liquidityClass (?as ! j) = c"
        using Cons.prems by (auto simp: nth_list_update)
      from Cons.IH [OF this]
      have ih: "\<And>d. sellClass T c (map (\<lambda>i. length pre + i) order) d (pre @ ?as) =
              (case spec_waterfall T order d ?as of (res, as') \<Rightarrow> (res, pre @ as'))" .
      have upd: "(pre @ as)[length pre + i := (as ! i)\<lparr>amount := amount (as ! i) - min (amount (as ! i)) deficit\<rparr>] = pre @ ?as"
        by (simp add: list_update_append)
      show ?thesis
        using False Inr c by (simp add: Let_def upd ih penalty_agree)
    qed
  qed
qed

lemma class_filter_shift:
  "filter (\<lambda>r. liquidityClass ((pre @ as) ! r) = c) (map (\<lambda>i. length pre + i) [0 ..< length as]) =
   map (\<lambda>i. length pre + i) (filter (\<lambda>i. liquidityClass (as ! i) = c) [0 ..< length as])"
  by (simp add: filter_map comp_def)

lemma classLoop_waterfall:
  "classLoop T cs (map (\<lambda>i. length pre + i) [0 ..< length as]) deficit (pre @ as) =
     (case spec_waterfall T
             (concat (map (\<lambda>c. filter (\<lambda>i. liquidityClass (as ! i) = c) [0 ..< length as]) cs))
             deficit as of
        (res, as') \<Rightarrow> (res, pre @ as'))"
proof (induction cs arbitrary: deficit as)
  case Nil
  show ?case by simp
next
  case (Cons c cs)
  show ?case
  proof (cases "deficit \<le> 0")
    case True
    then show ?thesis by (simp add: spec_waterfall_covered)
  next
    case False
    let ?order = "filter (\<lambda>i. liquidityClass (as ! i) = c) [0 ..< length as]"
    obtain res as' where w: "spec_waterfall T ?order deficit as = (res, as')"
      by (cases "spec_waterfall T ?order deficit as")
    from spec_waterfall_shape [OF w]
    have len: "length as' = length as" and cls: "map liquidityClass as' = map liquidityClass as"
      by simp_all
    have same: "\<And>i. i < length as \<Longrightarrow> liquidityClass (as' ! i) = liquidityClass (as ! i)"
      using cls len by (metis nth_map)
    have sc: "sellClass T c (map (\<lambda>i. length pre + i) ?order) deficit (pre @ as) = (res, pre @ as')"
      using sellClass_waterfall [of ?order as c T pre deficit] w by simp
    have orders: "\<And>c'. filter (\<lambda>i. liquidityClass (as' ! i) = c') [0 ..< length as] =
                      filter (\<lambda>i. liquidityClass (as ! i) = c') [0 ..< length as]"
      by (rule filter_cong) (simp_all add: same)
    show ?thesis
    proof (cases res)
      case (Inl e)
      with False w sc show ?thesis
        by (simp add: class_filter_shift spec_waterfall_append)
    next
      case (Inr deficit')
      have "classLoop T cs (map (\<lambda>i. length pre + i) [0 ..< length as']) deficit' (pre @ as') =
              (case spec_waterfall T
                 (concat (map (\<lambda>c. filter (\<lambda>i. liquidityClass (as' ! i) = c) [0 ..< length as']) cs))
                 deficit' as' of (res, as'') \<Rightarrow> (res, pre @ as''))"
        by (rule Cons.IH)
      then have ih: "classLoop T cs (map (\<lambda>i. length pre + i) [0 ..< length as]) deficit' (pre @ as') =
              (case spec_waterfall T
                 (concat (map (\<lambda>c. filter (\<lambda>i. liquidityClass (as ! i) = c) [0 ..< length as]) cs))
                 deficit' as' of (res, as'') \<Rightarrow> (res, pre @ as''))"
        by (simp only: orders len)
      from False w sc Inr ih show ?thesis
        by (simp add: class_filter_shift spec_waterfall_append)
    qed
  qed
qed

lemma liquidate_waterfall:
  "liquidateForDeficit T h arr deficitAmount =
     (case spec_waterfall T (spec_sale_order (input_assets h arr)) deficitAmount (input_assets h arr) of
        (Inl e, sold) \<Rightarrow> (Inl e, h @ sold)
      | (Inr remaining, sold) \<Rightarrow>
          (Inr \<lparr>remainingDeficit = max 0 remaining, liquidatedAssets = fresh_refs h arr\<rparr>, h @ sold))"
proof -
  let ?as = "input_assets h arr"
  have refs: "[length h ..< length h + length arr] = map (\<lambda>i. length h + i) [0 ..< length ?as]"
    by (simp add: input_assets_def map_add_upt add.commute)
  have "classLoop T liquidityOrder (map (\<lambda>i. length h + i) [0 ..< length ?as]) deficitAmount (h @ ?as) =
     (case spec_waterfall T (spec_sale_order ?as) deficitAmount ?as of (res, as') \<Rightarrow> (res, h @ as'))"
    unfolding spec_sale_order_def spec_priority_def liquidityOrder_def by (rule classLoop_waterfall)
  then show ?thesis
    unfolding liquidateForDeficit_def deepCopy_def fresh_refs_def
    by (simp add: refs input_assets_def [symmetric] split: prod.splits sum.splits)
qed

lemma spec_sale_order_in_range: "i \<in> set (spec_sale_order as) \<Longrightarrow> i < length as"
  by (auto simp: spec_sale_order_def)

lemma unlocked_amount_update: "(unlocked a)\<lparr>amount := x\<rparr> = unlocked (a\<lparr>amount := x\<rparr>)"
  by (cases a) (simp add: unlocked_def)

lemma spec_waterfall_unlocked:
  "\<forall>i \<in> set order. i < length as \<Longrightarrow>
   spec_waterfall T order deficit (map unlocked as) =
     (case spec_waterfall T order deficit as of (res, as') \<Rightarrow> (res, map unlocked as'))"
proof (induction order arbitrary: deficit as)
  case Nil
  show ?case by simp
next
  case (Cons i order)
  from Cons.prems have i: "i < length as" by simp
  show ?case
  proof (cases "deficit \<le> 0")
    case True
    then show ?thesis by simp
  next
    case False
    show ?thesis
    proof (cases "convert T (min (amount (as ! i)) deficit) (currency (as ! i)) ''USD''")
      case (Inl e)
      with False i show ?thesis by (simp add: Let_def unlocked_def)
    next
      case (Inr base)
      let ?as = "as[i := (as ! i)\<lparr>amount := amount (as ! i) - min (amount (as ! i)) deficit\<rparr>]"
      have "\<forall>j \<in> set order. j < length ?as" using Cons.prems by simp
      from Cons.IH [OF this]
      have ih: "\<And>d. spec_waterfall T order d (map unlocked ?as) =
              (case spec_waterfall T order d ?as of (res, as') \<Rightarrow> (res, map unlocked as'))" .
      have upd: "(map unlocked as)[i := (unlocked (as ! i))\<lparr>amount := amount (as ! i) - min (amount (as ! i)) deficit\<rparr>]
                 = map unlocked ?as"
        by (simp add: map_update unlocked_amount_update)
      have f: "amount (unlocked (as ! i)) = amount (as ! i)" "currency (unlocked (as ! i)) = currency (as ! i)"
        "liquidityClass (unlocked (as ! i)) = liquidityClass (as ! i)"
        by (simp_all add: unlocked_def)
      show ?thesis
        using False Inr i by (simp add: Let_def f upd ih)
    qed
  qed
qed

lemma spec_sale_order_unlocked: "spec_sale_order (map unlocked as) = spec_sale_order as"
proof -
  have "\<And>c. filter (\<lambda>i. liquidityClass (map unlocked as ! i) = c) [0 ..< length as] =
             filter (\<lambda>i. liquidityClass (as ! i) = c) [0 ..< length as]"
    by (rule filter_cong) (simp_all add: unlocked_def)
  then show ?thesis by (simp add: spec_sale_order_def)
qed

lemma liquidate_unlocked:
  assumes "valid_refs h arr"
  shows "liquidateForDeficit T (map unlocked h) arr d =
           (case liquidateForDeficit T h arr d of (res, h') \<Rightarrow> (res, map unlocked h'))"
proof -
  have inp: "input_assets (map unlocked h) arr = map unlocked (input_assets h arr)"
    using assms by (simp add: input_assets_def valid_refs_def list_all_iff)
  have fr: "fresh_refs (map unlocked h) arr = fresh_refs h arr"
    by (simp add: fresh_refs_def)
  have rng: "\<forall>i \<in> set (spec_sale_order (input_assets h arr)). i < length (input_assets h arr)"
    by (simp add: spec_sale_order_in_range)
  show ?thesis
    by (simp add: liquidate_waterfall inp fr spec_sale_order_unlocked
        spec_waterfall_unlocked [OF rng] split: prod.splits sum.splits)
qed

lemma spec_waterfall_nonneg:
  "list_all (\<lambda>a. 0 \<le> amount a) as \<Longrightarrow> spec_waterfall T order deficit as = (res, as') \<Longrightarrow>
     list_all (\<lambda>a. 0 \<le> amount a) as'"
proof (induction order arbitrary: deficit as)
  case Nil
  then show ?case by simp
next
  case (Cons i order)
  show ?case
  proof (cases "deficit \<le> 0")
    case True
    with Cons.prems show ?thesis by simp
  next
    case False
    show ?thesis
    proof (cases "convert T (min (amount (as ! i)) deficit) (currency (as ! i)) ''USD''")
      case (Inl e)
      with False Cons.prems show ?thesis by (simp add: Let_def)
    next
      case (Inr base)
      let ?a = "(as ! i)\<lparr>amount := amount (as ! i) - min (amount (as ! i)) deficit\<rparr>"
      have "0 \<le> amount ?a" by simp
      then have "list_all (\<lambda>a. 0 \<le> amount a) (as[i := ?a])"
        using Cons.prems(1) unfolding list_all_iff by (metis insertE set_update_subset_insert subsetD)
      moreover from Inr False Cons.prems(2)
      have "spec_waterfall T order (deficit - base * (1 - spec_penalty (liquidityClass (as ! i)))) (as[i := ?a]) = (res, as')"
        by (simp add: Let_def)
      ultimately show ?thesis by (rule Cons.IH)
    qed
  qed
qed

lemmas liquidation_eval = liquidateForDeficit_def deepCopy_def liquidityOrder_def convert_def
  liquidationPenalty_def truncateToPrecision_def toFixed_def precision_def pair_key_def
  scenario_liquid_def scenario_volatile_def initial_rates_def upt_conv_Cons

lemma liquidate_parts:
  obtains res sold where
    "spec_waterfall T (spec_sale_order (input_assets h arr)) d (input_assets h arr) = (res, sold)"
    and "length sold = length arr"
    and "snd (liquidateForDeficit T h arr d) = h @ sold"
    and "fst (liquidateForDeficit T h arr d) =
           map_sum (\<lambda>e. e)
             (\<lambda>remaining. \<lparr>remainingDeficit = max 0 remaining, liquidatedAssets = fresh_refs h arr\<rparr>)
             res"
proof -
  obtain res sold where
    w: "spec_waterfall T (spec_sale_order (input_assets h arr)) d (input_assets h arr) = (res, sold)"
    by (cases "spec_waterfall T (spec_sale_order (input_assets h arr)) d (input_assets h arr)")
  from spec_waterfall_shape [OF w] have len: "length sold = length arr"
    by (simp add: input_assets_def)
  have s: "snd (liquidateForDeficit T h arr d) = h @ sold"
    by (cases res) (simp_all add: liquidate_waterfall w)
  have f: "fst (liquidateForDeficit T h arr d) =
           map_sum (\<lambda>e. e)
             (\<lambda>remaining. \<lparr>remainingDeficit = max 0 remaining, liquidatedAssets = fresh_refs h arr\<rparr>)
             res"
    by (cases res) (simp_all add: liquidate_waterfall w)
  from w len s f show thesis by (rule that)
qed

text \<open>
  C1, as the claim states it, fails: \<open>liquidateForDeficit\<close> has no date argument and never
  looks at \<open>lockedUntil\<close>. A liquid deposit of 400 USD locked until day 2000 is locked on
  day 1000, and yet a deficit of 100 is covered out of it: the returned copy holds 300.
\<close>

theorem locked_asset_is_sold:
  "isAssetLocked locked_deposit 1000 \<and>
   liquidateForDeficit initial_rates [locked_deposit] [0] 100 =
     (Inr \<lparr>remainingDeficit = 0, liquidatedAssets = [1]\<rparr>,
      [locked_deposit, locked_deposit\<lparr>amount := 300\<rparr>]) \<and>
   amount (locked_deposit\<lparr>amount := 300\<rparr>) \<noteq> amount locked_deposit"
  by (simp add: isAssetLocked_def locked_deposit_def liquidation_eval)

text \<open>
  C1, amended. \<open>liquidateForDeficit\<close> does not consult \<open>lockedUntil\<close>: a locked asset is in
  the sellable pool like any other. Two stores that differ only in the \<open>lockedUntil\<close> fields
  of their objects give the same result (the same exception, or the same remaining deficit
  and addresses), and the stores after the call again differ only in \<open>lockedUntil\<close>: every
  asset is sold as if it had no lock.
\<close>

theorem liquidation_ignores_locks:
  assumes "valid_refs h1 arr" and "positive_rates T"
    and "map unlocked h1 = map unlocked h2"
  shows "fst (liquidateForDeficit T h1 arr d) = fst (liquidateForDeficit T h2 arr d) \<and>
         map unlocked (snd (liquidateForDeficit T h1 arr d)) =
         map unlocked (snd (liquidateForDeficit T h2 arr d))"
proof -
  from assms(3) have "length h1 = length h2" by (rule map_eq_imp_length_eq)
  with assms(1) have v2: "valid_refs h2 arr" by (simp add: valid_refs_def)
  have "(case liquidateForDeficit T h1 arr d of (res, h') \<Rightarrow> (res, map unlocked h')) =
        (case liquidateForDeficit T h2 arr d of (res, h') \<Rightarrow> (res, map unlocked h'))"
    using liquidate_unlocked [OF assms(1), of T d] liquidate_unlocked [OF v2, of T d] assms(3)
    by simp
  then show ?thesis by (simp add: split_beta)
qed

theorem liquidation_ignores_locks_witness:
  "valid_refs [locked_deposit] [0] \<and> positive_rates initial_rates \<and>
   map unlocked [locked_deposit] = map unlocked [unlocked locked_deposit] \<and>
   fst (liquidateForDeficit initial_rates [unlocked locked_deposit] [0] 100) =
     Inr \<lparr>remainingDeficit = 0, liquidatedAssets = [1]\<rparr>"
proof -
  have v: "valid_refs [locked_deposit] [0]" by (simp add: valid_refs_def)
  have m: "map unlocked [locked_deposit] = map unlocked [unlocked locked_deposit]"
    by (simp add: unlocked_def)
  have "fst (liquidateForDeficit initial_rates [locked_deposit] [0] 100) =
          Inr \<lparr>remainingDeficit = 0, liquidatedAssets = [1]\<rparr>"
    by (simp add: locked_deposit_def liquidation_eval)
  with liquidation_ignores_locks [OF v positive_initial m, of 100] v m positive_initial
  show ?thesis by simp
qed

text \<open>
  C2. \<open>liquidateForDeficit\<close> computes the waterfall of the specification: the copies are
  sold in the order liquid, yield, volatile, illiquid and in array order within a class, each
  sale is \<open>min(amount, remainingDeficit)\<close> units whose proceeds in the base currency are
  reduced by the penalty of the class (0%, 2%, 5%, 10%), and the pass stops as soon as the
  remaining deficit is not positive; the result is the remaining deficit (not below 0) and the
  addresses of the copies. In the scenario, a deficit of 1000 against a liquid 400 USD and a
  volatile 1000 USD drains the liquid asset, sells 600 of the volatile one for 570, and
  returns a remaining deficit of 30.
\<close>

theorem liquidation_is_priority_waterfall:
  assumes "valid_refs h arr" and "positive_rates T"
  shows "liquidateForDeficit T h arr d =
           (case spec_waterfall T (spec_sale_order (input_assets h arr)) d
                   (input_assets h arr) of
              (Inl e, sold) \<Rightarrow> (Inl e, h @ sold)
            | (Inr remaining, sold) \<Rightarrow>
                (Inr \<lparr>remainingDeficit = max 0 remaining,
                      liquidatedAssets = fresh_refs h arr\<rparr>, h @ sold))
         \<and> (\<forall>c. liquidationPenalty c = spec_penalty c)
         \<and> liquidateForDeficit T [scenario_liquid, scenario_volatile] [0, 1] 1000 =
             (Inr \<lparr>remainingDeficit = 30, liquidatedAssets = [2, 3]\<rparr>,
              [scenario_liquid, scenario_volatile,
               scenario_liquid\<lparr>amount := 0\<rparr>, scenario_volatile\<lparr>amount := 400\<rparr>])"
proof (intro conjI)
  show "liquidateForDeficit T h arr d =
           (case spec_waterfall T (spec_sale_order (input_assets h arr)) d
                   (input_assets h arr) of
              (Inl e, sold) \<Rightarrow> (Inl e, h @ sold)
            | (Inr remaining, sold) \<Rightarrow>
                (Inr \<lparr>remainingDeficit = max 0 remaining,
                      liquidatedAssets = fresh_refs h arr\<rparr>, h @ sold))"
    by (rule liquidate_waterfall)
  show "\<forall>c. liquidationPenalty c = spec_penalty c"
    by (simp add: penalty_agree)
  show "liquidateForDeficit T [scenario_liquid, scenario_volatile] [0, 1] 1000 =
             (Inr \<lparr>remainingDeficit = 30, liquidatedAssets = [2, 3]\<rparr>,
              [scenario_liquid, scenario_volatile,
               scenario_liquid\<lparr>amount := 0\<rparr>, scenario_volatile\<lparr>amount := 400\<rparr>])"
    by (simp add: liquidation_eval)
qed

theorem liquidation_is_priority_waterfall_witness:
  "valid_refs [scenario_volatile, scenario_liquid] [0, 1] \<and> positive_rates initial_rates \<and>
   spec_sale_order [scenario_volatile, scenario_liquid] = [1, 0] \<and>
   liquidateForDeficit initial_rates [scenario_volatile, scenario_liquid] [0, 1] 1000 =
     (Inr \<lparr>remainingDeficit = 30, liquidatedAssets = [2, 3]\<rparr>,
      [scenario_volatile, scenario_liquid,
       scenario_volatile\<lparr>amount := 400\<rparr>, scenario_liquid\<lparr>amount := 0\<rparr>])"
proof -
  have v: "valid_refs [scenario_volatile, scenario_liquid] [0, 1]"
    by (simp add: valid_refs_def)
  have i: "input_assets [scenario_volatile, scenario_liquid] [0, 1] =
             [scenario_volatile, scenario_liquid]"
    by (simp add: input_assets_def)
  have f: "fresh_refs [scenario_volatile, scenario_liquid] [0, 1] = [2, 3]"
    by (simp add: fresh_refs_def upt_conv_Cons)
  have o: "spec_sale_order [scenario_volatile, scenario_liquid] = [1, 0]"
    by (simp add: spec_sale_order_def spec_priority_def scenario_volatile_def
        scenario_liquid_def upt_conv_Cons)
  have w: "spec_waterfall initial_rates [1, 0] 1000 [scenario_volatile, scenario_liquid] =
             (Inr 30, [scenario_volatile\<lparr>amount := 400\<rparr>, scenario_liquid\<lparr>amount := 0\<rparr>])"
    by (simp add: spec_penalty_def convert_def truncateToPrecision_def toFixed_def
        precision_def scenario_volatile_def scenario_liquid_def)
  have "liquidateForDeficit initial_rates [scenario_volatile, scenario_liquid] [0, 1] 1000 =
     (Inr \<lparr>remainingDeficit = 30, liquidatedAssets = [2, 3]\<rparr>,
      [scenario_volatile, scenario_liquid,
       scenario_volatile\<lparr>amount := 400\<rparr>, scenario_liquid\<lparr>amount := 0\<rparr>])"
    using liquidation_is_priority_waterfall [OF v positive_initial, of 1000, unfolded i f o w]
    by simp
  with v o positive_initial show ?thesis by blast
qed

text \<open>
  C3. Whether the call returns or throws, every object that was in the store before the call
  has all its fields unchanged after it; the returned array holds addresses allocated by the
  call, none of them an address of the caller; and when the input quantities are not
  negative, no returned quantity is negative. (The input array itself is only read: the code
  has no assignment to it, and it is a list here.)
\<close>

theorem liquidation_keeps_input_and_signs:
  assumes "valid_refs h arr" and "positive_rates T"
  shows "(\<forall>r < length h. snd (liquidateForDeficit T h arr d) ! r = h ! r)
         \<and> (\<forall>res. fst (liquidateForDeficit T h arr d) = Inr res \<longrightarrow>
               length (liquidatedAssets res) = length arr
               \<and> (\<forall>r \<in> set (liquidatedAssets res).
                     length h \<le> r \<and> r < length (snd (liquidateForDeficit T h arr d)))
               \<and> (list_all (\<lambda>r. 0 \<le> amount (h ! r)) arr \<longrightarrow>
                    list_all (\<lambda>r. 0 \<le> amount (snd (liquidateForDeficit T h arr d) ! r))
                      (liquidatedAssets res)))"
proof -
  obtain res0 sold where
    w: "spec_waterfall T (spec_sale_order (input_assets h arr)) d (input_assets h arr) = (res0, sold)"
    and len: "length sold = length arr"
    and s: "snd (liquidateForDeficit T h arr d) = h @ sold"
    and f: "fst (liquidateForDeficit T h arr d) =
           map_sum (\<lambda>e. e)
             (\<lambda>remaining. \<lparr>remainingDeficit = max 0 remaining, liquidatedAssets = fresh_refs h arr\<rparr>)
             res0"
    by (rule liquidate_parts)
  have frame: "\<forall>r < length h. snd (liquidateForDeficit T h arr d) ! r = h ! r"
    by (simp add: s nth_append)
  have rest: "length (liquidatedAssets res) = length arr
               \<and> (\<forall>r \<in> set (liquidatedAssets res).
                     length h \<le> r \<and> r < length (snd (liquidateForDeficit T h arr d)))
               \<and> (list_all (\<lambda>r. 0 \<le> amount (h ! r)) arr \<longrightarrow>
                    list_all (\<lambda>r. 0 \<le> amount (snd (liquidateForDeficit T h arr d) ! r))
                      (liquidatedAssets res))"
    if r: "fst (liquidateForDeficit T h arr d) = Inr res" for res
  proof -
    from r f have la: "liquidatedAssets res = fresh_refs h arr"
      by (cases res0) auto
    have a: "length (liquidatedAssets res) = length arr"
      by (simp add: la fresh_refs_def)
    have b: "\<forall>r \<in> set (liquidatedAssets res).
                     length h \<le> r \<and> r < length (snd (liquidateForDeficit T h arr d))"
      by (simp add: la fresh_refs_def s len)
    have c: "list_all (\<lambda>r. 0 \<le> amount (snd (liquidateForDeficit T h arr d) ! r))
                      (liquidatedAssets res)"
      if nn: "list_all (\<lambda>r. 0 \<le> amount (h ! r)) arr"
    proof -
      from nn have "list_all (\<lambda>a. 0 \<le> amount a) (input_assets h arr)"
        by (simp add: input_assets_def list_all_iff)
      from spec_waterfall_nonneg [OF this w]
      have sold: "\<forall>j < length sold. 0 \<le> amount (sold ! j)"
        by (simp add: list_all_length)
      show ?thesis
        unfolding la fresh_refs_def s list_all_iff
      proof
        fix r
        assume "r \<in> set [length h ..< length h + length arr]"
        then have "length h \<le> r" and "r - length h < length sold" using len by auto
        then show "0 \<le> amount ((h @ sold) ! r)"
          using sold by (simp add: nth_append)
      qed
    qed
    from a b c show ?thesis by blast
  qed
  from frame rest show ?thesis by blast
qed

theorem liquidation_keeps_input_and_signs_witness:
  "valid_refs [scenario_liquid, scenario_volatile] [0, 1] \<and> positive_rates initial_rates \<and>
   fst (liquidateForDeficit initial_rates [scenario_liquid, scenario_volatile] [0, 1] 1000) =
     Inr \<lparr>remainingDeficit = 30, liquidatedAssets = [2, 3]\<rparr> \<and>
   list_all (\<lambda>r. 0 \<le> amount ([scenario_liquid, scenario_volatile] ! r)) [0, 1] \<and>
   snd (liquidateForDeficit initial_rates [scenario_liquid, scenario_volatile] [0, 1] 1000) ! 0 =
     scenario_liquid \<and>
   snd (liquidateForDeficit initial_rates [scenario_liquid, scenario_volatile] [0, 1] 1000) ! 1 =
     scenario_volatile \<and>
   list_all
     (\<lambda>r. 0 \<le> amount
        (snd (liquidateForDeficit initial_rates [scenario_liquid, scenario_volatile] [0, 1] 1000) ! r))
     [2, 3]"
proof -
  have v: "valid_refs [scenario_liquid, scenario_volatile] [0, 1]"
    by (simp add: valid_refs_def)
  have r: "fst (liquidateForDeficit initial_rates [scenario_liquid, scenario_volatile] [0, 1] 1000) =
     Inr \<lparr>remainingDeficit = 30, liquidatedAssets = [2, 3]\<rparr>"
    by (simp add: liquidation_eval)
  have n: "list_all (\<lambda>r. 0 \<le> amount ([scenario_liquid, scenario_volatile] ! r)) [0, 1]"
    by (simp add: scenario_liquid_def scenario_volatile_def)
  note inst = liquidation_keeps_input_and_signs [OF v positive_initial, of 1000]
  from inst have fr: "\<forall>r < length [scenario_liquid, scenario_volatile].
      snd (liquidateForDeficit initial_rates [scenario_liquid, scenario_volatile] [0, 1] 1000) ! r =
      [scenario_liquid, scenario_volatile] ! r"
    by blast
  from fr have a0:
    "snd (liquidateForDeficit initial_rates [scenario_liquid, scenario_volatile] [0, 1] 1000) ! 0 =
       scenario_liquid"
    by simp
  from fr have "1 < length [scenario_liquid, scenario_volatile] \<longrightarrow>
    snd (liquidateForDeficit initial_rates [scenario_liquid, scenario_volatile] [0, 1] 1000) ! 1 =
      [scenario_liquid, scenario_volatile] ! 1"
    by (rule spec)
  then have a1:
    "snd (liquidateForDeficit initial_rates [scenario_liquid, scenario_volatile] [0, 1] 1000) ! 1 =
       scenario_volatile"
    by simp
  from inst r n have "list_all
     (\<lambda>r. 0 \<le> amount
        (snd (liquidateForDeficit initial_rates [scenario_liquid, scenario_volatile] [0, 1] 1000) ! r))
     (liquidatedAssets \<lparr>remainingDeficit = 30, liquidatedAssets = [2, 3]\<rparr>)"
    by blast
  then have b: "list_all
     (\<lambda>r. 0 \<le> amount
        (snd (liquidateForDeficit initial_rates [scenario_liquid, scenario_volatile] [0, 1] 1000) ! r))
     [2, 3]"
    by simp
  from v positive_initial r n a0 a1 b show ?thesis by blast
qed

text \<open>
  C10. Whenever \<open>liquidateForDeficit\<close> returns, the remaining deficit it returns is not
  negative: the loop's own remainder may overshoot below zero and is cut off at 0. A deficit
  of 100 against 200 GBP of cash sells 100 units, worth 126.582278 USD, so the loop ends at
  100 - 126.582278 and the call returns 0.
\<close>

theorem remaining_deficit_clamped:
  assumes "valid_refs h arr" and "positive_rates T"
  shows "(\<forall>res. fst (liquidateForDeficit T h arr d) = Inr res \<longrightarrow> 0 \<le> remainingDeficit res)
         \<and> sellClass initial_rates Liquid [1] 100 [sterling_cash, sterling_cash] =
             (Inr (100 - 126582278 / 1000000),
              [sterling_cash, sterling_cash\<lparr>amount := 100\<rparr>])
         \<and> liquidateForDeficit initial_rates [sterling_cash] [0] 100 =
             (Inr \<lparr>remainingDeficit = 0, liquidatedAssets = [1]\<rparr>,
              [sterling_cash, sterling_cash\<lparr>amount := 100\<rparr>])"
proof (intro conjI)
  show "\<forall>res. fst (liquidateForDeficit T h arr d) = Inr res \<longrightarrow> 0 \<le> remainingDeficit res"
    by (auto simp: liquidateForDeficit_def split: prod.splits sum.splits)
  show "sellClass initial_rates Liquid [1] 100 [sterling_cash, sterling_cash] =
             (Inr (100 - 126582278 / 1000000),
              [sterling_cash, sterling_cash\<lparr>amount := 100\<rparr>])"
    by (simp add: sterling_cash_def liquidation_eval)
  show "liquidateForDeficit initial_rates [sterling_cash] [0] 100 =
             (Inr \<lparr>remainingDeficit = 0, liquidatedAssets = [1]\<rparr>,
              [sterling_cash, sterling_cash\<lparr>amount := 100\<rparr>])"
    by (simp add: sterling_cash_def liquidation_eval)
qed

theorem remaining_deficit_clamped_witness:
  "valid_refs [sterling_cash] [0] \<and> positive_rates initial_rates \<and>
   fst (liquidateForDeficit initial_rates [sterling_cash] [0] 100) =
     Inr \<lparr>remainingDeficit = 0, liquidatedAssets = [1]\<rparr> \<and>
   0 \<le> remainingDeficit \<lparr>remainingDeficit = 0, liquidatedAssets = [1]\<rparr>"
proof -
  have v: "valid_refs [sterling_cash] [0]" by (simp add: valid_refs_def)
  have r: "fst (liquidateForDeficit initial_rates [sterling_cash] [0] 100) =
     Inr \<lparr>remainingDeficit = 0, liquidatedAssets = [1]\<rparr>"
    by (simp add: sterling_cash_def liquidation_eval)
  from remaining_deficit_clamped [OF v positive_initial, of 100] r
  have "0 \<le> remainingDeficit \<lparr>remainingDeficit = 0, liquidatedAssets = [1]\<rparr>" by blast
  with v positive_initial r show ?thesis by blast
qed


section \<open>Properties of the revaluation\<close>

lemmas rng_eval = next_random_def seededRNG_def js_and_def js_shr_def js_shl_def js_ushr0_def
  to_int32_def mask_def

lemma next_random_unit: "0 \<le> fst (next_random g) \<and> fst (next_random g) < 1"
proof -
  obtain x where f: "fst (next_random g) = real_of_int (take_bit 32 x) / 4294967296"
    by (simp add: next_random_def Let_def js_ushr0_def)
  have "0 \<le> take_bit 32 x" by simp
  moreover have "take_bit 32 x < 2 ^ 32" by (rule take_bit_int_less_exp)
  ultimately have "0 \<le> real_of_int (take_bit 32 x)" and "real_of_int (take_bit 32 x) < 4294967296"
    by simp_all
  then show ?thesis unfolding f by simp
qed

lemma draw_unit: "0 \<le> draw seed i \<and> draw seed i < 1"
  unfolding draw_def by (rule next_random_unit)

lemma revalue_step:
  "revalue_map g (a # rest) = spec_revalued a (fst (next_random g)) # revalue_map (rng_step g) rest"
  by (cases "next_random g") (simp add: spec_revalued_def spec_shock_def rng_step_def Let_def algebra_simps)

lemma revalue_map_draws:
  "revalue_map g as =
     map (\<lambda>i. spec_revalued (as ! i) (fst (next_random ((rng_step ^^ i) g))))
       [0 ..< length as]"
proof (induction as arbitrary: g)
  case Nil
  show ?case by simp
next
  case (Cons a as)
  have "map (\<lambda>i. spec_revalued ((a # as) ! i) (fst (next_random ((rng_step ^^ i) g))))
          [0 ..< length (a # as)] =
        spec_revalued a (fst (next_random g)) #
        map (\<lambda>i. spec_revalued (as ! i) (fst (next_random ((rng_step ^^ i) (rng_step g)))))
          [0 ..< length as]"
    by (simp add: upt_conv_Cons map_Suc_upt [symmetric] funpow_swap1 comp_def del: upt_Suc)
  then show ?case by (simp only: revalue_step Cons.IH)
qed

lemma spec_revalued_nonneg: "0 \<le> amount (spec_revalued a u)"
  by (simp add: spec_revalued_def toFixed_nonneg)

lemma spec_shock_range:
  "0 \<le> u \<Longrightarrow> u \<le> 1 \<Longrightarrow> 0 \<le> volatility a \<Longrightarrow>
     - volatility a \<le> spec_shock a u \<and> spec_shock a u \<le> volatility a"
proof -
  assume u: "0 \<le> u" "u \<le> 1" and v: "0 \<le> volatility a"
  have "(2 * u - 1) * volatility a \<le> 1 * volatility a"
    by (rule mult_right_mono) (use u v in simp_all)
  moreover have "(-1) * volatility a \<le> (2 * u - 1) * volatility a"
    by (rule mult_right_mono) (use u v in simp_all)
  ultimately show ?thesis by (simp add: spec_shock_def)
qed


text \<open>
  C4. The output of \<open>revalueAssets\<close> is a function of the asset list and the seed alone:
  asset \<open>i\<close> is revalued with the \<open>i\<close>-th number the generator made from the seed draws,
  one draw per asset in array order. Every draw lies in \<open>[0, 1)\<close>, so for a volatility that
  is not negative the shock lies between \<open>-volatility\<close> and \<open>+volatility\<close>; and every
  revalued amount is at least 0.
\<close>

theorem revalue_deterministic_nonneg:
  "revalueAssets arr seed =
     map (\<lambda>i. spec_revalued (arr ! i) (draw seed i)) [0 ..< length arr]
   \<and> (\<forall>i. 0 \<le> draw seed i \<and> draw seed i < 1)
   \<and> (\<forall>i. 0 \<le> volatility (arr ! i) \<longrightarrow>
          - volatility (arr ! i) \<le> spec_shock (arr ! i) (draw seed i) \<and>
          spec_shock (arr ! i) (draw seed i) \<le> volatility (arr ! i))
   \<and> (\<forall>a \<in> set (revalueAssets arr seed). 0 \<le> amount a)"
proof (intro conjI)
  show eq: "revalueAssets arr seed =
     map (\<lambda>i. spec_revalued (arr ! i) (draw seed i)) [0 ..< length arr]"
    by (simp add: revalueAssets_def draw_def revalue_map_draws)
  show "\<forall>i. 0 \<le> draw seed i \<and> draw seed i < 1"
    by (simp add: draw_unit)
  show "\<forall>i. 0 \<le> volatility (arr ! i) \<longrightarrow>
          - volatility (arr ! i) \<le> spec_shock (arr ! i) (draw seed i) \<and>
          spec_shock (arr ! i) (draw seed i) \<le> volatility (arr ! i)"
  proof (intro allI impI)
    fix i
    assume v: "0 \<le> volatility (arr ! i)"
    have "0 \<le> draw seed i" and "draw seed i \<le> 1"
      using draw_unit [of seed i] by simp_all
    then show "- volatility (arr ! i) \<le> spec_shock (arr ! i) (draw seed i) \<and>
          spec_shock (arr ! i) (draw seed i) \<le> volatility (arr ! i)"
      using v by (rule spec_shock_range)
  qed
  show "\<forall>a \<in> set (revalueAssets arr seed). 0 \<le> amount a"
    unfolding eq by (auto simp: spec_revalued_nonneg)
qed

theorem revalue_deterministic_nonneg_witness:
  "revalueAssets [scenario_volatile, scenario_liquid] 42 =
     [scenario_volatile\<lparr>amount := 65403659 / 62500\<rparr>, scenario_liquid] \<and>
   draw 42 0 = 98286665 / 134217728 \<and>
   0 \<le> volatility scenario_volatile \<and>
   - volatility scenario_volatile \<le> spec_shock scenario_volatile (draw 42 0) \<and>
   spec_shock scenario_volatile (draw 42 0) \<le> volatility scenario_volatile \<and>
   0 \<le> amount (scenario_volatile\<lparr>amount := 65403659 / 62500\<rparr>)"
proof -
  have r: "revalueAssets [scenario_volatile, scenario_liquid] 42 =
     [scenario_volatile\<lparr>amount := 65403659 / 62500\<rparr>, scenario_liquid]"
    by (simp add: revalueAssets_def rng_eval scenario_volatile_def scenario_liquid_def toFixed_def)
  have d: "draw 42 0 = 98286665 / 134217728"
    by (simp add: draw_def rng_eval)
  have v: "0 \<le> volatility scenario_volatile"
    by (simp add: scenario_volatile_def)
  note inst = revalue_deterministic_nonneg [of "[scenario_volatile, scenario_liquid]" 42]
  from inst have "0 \<le> volatility ([scenario_volatile, scenario_liquid] ! 0) \<longrightarrow>
          - volatility ([scenario_volatile, scenario_liquid] ! 0)
            \<le> spec_shock ([scenario_volatile, scenario_liquid] ! 0) (draw 42 0) \<and>
          spec_shock ([scenario_volatile, scenario_liquid] ! 0) (draw 42 0)
            \<le> volatility ([scenario_volatile, scenario_liquid] ! 0)"
    by blast
  with v have s: "- volatility scenario_volatile \<le> spec_shock scenario_volatile (draw 42 0) \<and>
      spec_shock scenario_volatile (draw 42 0) \<le> volatility scenario_volatile"
    by simp
  from inst have "\<forall>a \<in> set (revalueAssets [scenario_volatile, scenario_liquid] 42). 0 \<le> amount a"
    by blast
  then have n: "0 \<le> amount (scenario_volatile\<lparr>amount := 65403659 / 62500\<rparr>)"
    unfolding r by simp
  from r d v s n show ?thesis by blast
qed


section \<open>Properties of the risk and statistics engines\<close>

lemma last_state_last: "t \<noteq> [] \<Longrightarrow> last_state t = Some (last t)"
  by (simp add: last_state_def last_conv_nth)

lemma final_balance_days: "t \<noteq> [] \<Longrightarrow> final_balance t = Inr (balance (last t))"
  by (simp add: final_balance_def last_state_last)

lemma final_balance_no_days: "final_balance [] = Inl TypeError"
  by (simp add: final_balance_def last_state_def)

lemma final_balances_ok:
  "[] \<notin> set ts \<Longrightarrow> map_result final_balance ts = Inr (map (\<lambda>t. balance (last t)) ts)"
  by (induction ts) (auto simp: final_balance_days)

lemma final_balances_throw:
  "[] \<in> set ts \<Longrightarrow> map_result final_balance ts = Inl TypeError"
proof (induction ts)
  case Nil
  then show ?case by simp
next
  case (Cons t ts)
  show ?case
  proof (cases "t = []")
    case True
    then show ?thesis by (simp add: final_balance_no_days)
  next
    case False
    with Cons have "map_result final_balance ts = Inl TypeError" by simp
    with False show ?thesis by (simp add: final_balance_days)
  qed
qed

lemma drawdown_throw:
  "[] \<in> set ts \<Longrightarrow> drawdown_trajectories ts w = Inl TypeError"
  by (induction ts arbitrary: w) (auto split: list.splits)

lemma collapse_throw:
  "[] \<in> set ts \<Longrightarrow> calculateCollapseProbability ts = Inl TypeError"
proof -
  assume e: "[] \<in> set ts"
  then have n: "real (length ts) \<noteq> 0" by (cases ts) simp_all
  have m: "calculateMaxDrawdown ts = Inl TypeError"
    by (simp add: calculateMaxDrawdown_def drawdown_throw [OF e] bind_result_def)
  show ?thesis
    unfolding calculateCollapseProbability_def
    by (cases "scan_trajectories ts [] 0") (simp add: Let_def js_div_def n m bind_result_def)
qed

lemma var_throw: "[] \<in> set ts \<Longrightarrow> calculateVaR ts p = Inl TypeError"
  by (simp add: calculateVaR_def final_balances_throw bind_result_def)

lemma cvar_throw: "[] \<in> set ts \<Longrightarrow> calculateCVaR ts p = Inl TypeError"
  by (simp add: calculateCVaR_def final_balances_throw bind_result_def)

lemma stats_throw: "[] \<in> set ts \<Longrightarrow> generateStatistics cs ast vb ts = Inl TypeError"
  by (simp add: generateStatistics_def final_balances_throw bind_result_def)

lemma collapse_empty:
  "calculateCollapseProbability [] =
     Inr \<lparr>collapseProbability = NaN, collapseTimings = [], averageCollapsDay = 0,
          recoveryRate = 1, maxDrawdown = 0\<rparr>"
  by (simp add: calculateCollapseProbability_def js_div_def bind_result_def
      calculateMaxDrawdown_def toFixed_def)

lemma var_empty: "calculateVaR [] p = Inr Undefined"
  by (simp add: calculateVaR_def bind_result_def js_index_def)

lemma cvar_empty: "calculateCVaR [] p = Inr NaN"
  by (simp add: calculateCVaR_def bind_result_def js_slice0_def js_mean_def js_div_def js_sum_def Let_def)

lemma balance_stats_empty: "calculateBalanceStats [] = Inl TypeError"
  by (simp add: calculateBalanceStats_def js_mean_def js_sum_def js_div_def js_index_def
      bind_result_def)

lemma stats_empty: "generateStatistics cs ast vb [] = Inl TypeError"
  by (simp add: generateStatistics_def bind_result_def balance_stats_empty)

lemma var_value:
  assumes "[] \<notin> set ts"
  shows "calculateVaR ts p =
           Inr (js_index (sort (map (\<lambda>t. balance (last t)) ts)) (max 0 \<lfloor>real (length ts) * p\<rfloor>))"
  by (simp add: calculateVaR_def final_balances_ok [OF assms] bind_result_def)

lemma cvar_value:
  assumes "[] \<notin> set ts"
  shows "calculateCVaR ts p =
           Inr (js_mean (js_slice0 (sort (map (\<lambda>t. balance (last t)) ts)) (\<lfloor>real (length ts) * p\<rfloor> + 1)))"
  by (simp add: calculateCVaR_def final_balances_ok [OF assms] bind_result_def)

lemma floor_index_bounds:
  assumes "0 \<le> p" and "p < 1" and "0 < n"
  shows "0 \<le> \<lfloor>real n * p\<rfloor>" and "\<lfloor>real n * p\<rfloor> < int n"
proof -
  show "0 \<le> \<lfloor>real n * p\<rfloor>" using assms by simp
  have "real n * p < real n * 1"
    by (rule mult_strict_left_mono) (use assms in simp_all)
  then have "real n * p < real_of_int (int n)" by simp
  then show "\<lfloor>real n * p\<rfloor> < int n" by (simp only: floor_less_iff)
qed

lemma var_monotone:
  assumes ne: "ts \<noteq> []" and days: "[] \<notin> set ts"
    and p: "0 \<le> p1" "p1 \<le> p2" "p2 < 1"
  shows "\<exists>a b. calculateVaR ts p1 = Inr (Num a) \<and> calculateVaR ts p2 = Inr (Num b) \<and> a \<le> b"
proof -
  let ?s = "sort (map (\<lambda>t. balance (last t)) ts)"
  let ?n = "length ts"
  have n: "0 < ?n" using ne by simp
  have len: "length ?s = ?n" by simp
  have p1: "p1 < 1" and p2: "0 \<le> p2" using p by simp_all
  have i1: "0 \<le> \<lfloor>real ?n * p1\<rfloor>" "\<lfloor>real ?n * p1\<rfloor> < int ?n"
    using floor_index_bounds [OF p(1) p1 n] by simp_all
  have i2: "0 \<le> \<lfloor>real ?n * p2\<rfloor>" "\<lfloor>real ?n * p2\<rfloor> < int ?n"
    using floor_index_bounds [OF p2 p(3) n] by simp_all
  have "real ?n * p1 \<le> real ?n * p2"
    by (rule mult_left_mono) (use p in simp_all)
  then have le: "\<lfloor>real ?n * p1\<rfloor> \<le> \<lfloor>real ?n * p2\<rfloor>" by (rule floor_mono)
  have v1: "calculateVaR ts p1 = Inr (Num (?s ! nat \<lfloor>real ?n * p1\<rfloor>))"
    using i1 by (simp add: var_value [OF days] js_index_def max_def)
  have v2: "calculateVaR ts p2 = Inr (Num (?s ! nat \<lfloor>real ?n * p2\<rfloor>))"
    using i2 by (simp add: var_value [OF days] js_index_def max_def)
  have k: "nat \<lfloor>real ?n * p1\<rfloor> \<le> nat \<lfloor>real ?n * p2\<rfloor>"
    using le by (rule nat_mono)
  have b: "nat \<lfloor>real ?n * p2\<rfloor> < length ?s"
    using i2 by (simp add: nat_less_iff)
  have "?s ! nat \<lfloor>real ?n * p1\<rfloor> \<le> ?s ! nat \<lfloor>real ?n * p2\<rfloor>"
    by (rule sorted_nth_mono [OF sorted_sort k b])
  with v1 v2 show ?thesis by blast
qed


lemmas risk_eval = calculateVaR_def calculateCVaR_def final_balance_def last_state_def wallet_def
  bind_result_def js_index_def js_slice0_def js_mean_def js_sum_def js_div_def Let_def

lemma hd_sorted_is_Min:
  assumes "sorted ys" and "ys \<noteq> []"
  shows "ys ! 0 = Min (set ys)"
proof -
  obtain y rest where ys: "ys = y # rest" using assms(2) by (cases ys) auto
  have "Min (set ys) = y"
    by (rule Min_eqI) (use assms(1) ys in auto)
  then show ?thesis by (simp add: ys)
qed

text \<open>
  C7, as the claim states it, fails: no percentile is rejected. With final balances 7 and 5,
  the value at risk for the percentile -1 is 5 (the index is clamped to 0) and for the
  percentile 2 it is \<open>undefined\<close>; the conditional value at risk for the percentile 2 is the
  mean 6 of all balances, and for the percentile -1/4 it is \<open>NaN\<close>.
\<close>

theorem percentile_out_of_range_accepted:
  "calculateVaR [[wallet 7 700], [wallet 5 700]] (- 1) = Inr (Num 5) \<and>
   calculateVaR [[wallet 7 700], [wallet 5 700]] 2 = Inr Undefined \<and>
   calculateCVaR [[wallet 7 700], [wallet 5 700]] 2 = Inr (Num 6) \<and>
   calculateCVaR [[wallet 7 700], [wallet 5 700]] (- 1 / 4) = Inr NaN"
  by (simp add: risk_eval)

text \<open>
  C7, amended. \<open>calculateVaR\<close> and \<open>calculateCVaR\<close> do not validate the percentile: on an
  ensemble whose trajectories all have a day they return a value for every percentile, inside
  \<open>[0, 1]\<close> or not, and throw nothing; for a negative percentile on an ensemble that is not
  empty, \<open>calculateVaR\<close> clamps the index to 0 and returns the smallest final balance.
\<close>

theorem percentile_is_not_validated:
  assumes "[] \<notin> set ts"
  shows "(\<exists>v. calculateVaR ts p = Inr v) \<and> (\<exists>v. calculateCVaR ts p = Inr v)
         \<and> (ts \<noteq> [] \<and> p < 0 \<longrightarrow>
              calculateVaR ts p = Inr (Num (Min (set (map (\<lambda>t. balance (last t)) ts)))))"
proof (intro conjI impI)
  show "\<exists>v. calculateVaR ts p = Inr v" by (simp add: var_value [OF assms])
  show "\<exists>v. calculateCVaR ts p = Inr v" by (simp add: cvar_value [OF assms])
  assume a: "ts \<noteq> [] \<and> p < 0"
  let ?s = "sort (map (\<lambda>t. balance (last t)) ts)"
  from a have "real (length ts) * p \<le> 0" by (simp add: mult_nonneg_nonpos)
  then have "\<lfloor>real (length ts) * p\<rfloor> \<le> 0" by (simp add: floor_le_zero)
  then have m: "max 0 \<lfloor>real (length ts) * p\<rfloor> = 0" by simp
  from a have "length ?s \<noteq> 0" by simp
  then have ne: "?s \<noteq> []" by (rule contrapos_nn) (simp only: list.size)
  from a have i: "js_index ?s 0 = Num (?s ! 0)" by (simp add: js_index_def)
  have "?s ! 0 = Min (set ?s)" by (rule hd_sorted_is_Min [OF sorted_sort ne])
  then have "?s ! 0 = Min (set (map (\<lambda>t. balance (last t)) ts))" by simp
  with i m show "calculateVaR ts p = Inr (Num (Min (set (map (\<lambda>t. balance (last t)) ts))))"
    by (simp add: var_value [OF assms])
qed

theorem percentile_is_not_validated_witness:
  "[] \<notin> set [[wallet 7 700], [wallet 5 700]] \<and>
   [[wallet 7 700], [wallet 5 700]] \<noteq> [] \<and> (- 1 :: real) < 0 \<and>
   calculateVaR [[wallet 7 700], [wallet 5 700]] (- 1) = Inr (Num 5)"
proof -
  have h: "[] \<notin> set [[wallet 7 700], [wallet 5 700]]" by simp
  have m: "Min (set (map (\<lambda>t. balance (last t)) [[wallet 7 700], [wallet 5 700]])) = 5"
    by (simp add: wallet_def)
  from percentile_is_not_validated [OF h, of "- 1"]
  have "calculateVaR [[wallet 7 700], [wallet 5 700]] (- 1) =
          Inr (Num (Min (set (map (\<lambda>t. balance (last t)) [[wallet 7 700], [wallet 5 700]]))))"
    by simp
  then have "calculateVaR [[wallet 7 700], [wallet 5 700]] (- 1) = Inr (Num 5)"
    by (simp only: m)
  with h show ?thesis by simp
qed

text \<open>
  C8, as the claim states it, fails: on the empty ensemble \<open>calculateCollapseProbability\<close>
  returns a packet whose collapse probability is \<open>NaN\<close>, and \<open>calculateVaR\<close> returns
  \<open>undefined\<close>; neither throws.
\<close>

theorem empty_ensemble_accepted:
  "calculateCollapseProbability [] =
     Inr \<lparr>collapseProbability = NaN, collapseTimings = [], averageCollapsDay = 0,
          recoveryRate = 1, maxDrawdown = 0\<rparr> \<and>
   calculateVaR [] (1 / 20) = Inr Undefined"
  by (simp add: collapse_empty var_empty)

text \<open>
  C8, amended. The operations do not validate their input and know no \<open>InvalidInput\<close>. On
  the empty ensemble \<open>calculateCollapseProbability\<close> returns (collapse probability \<open>NaN\<close>,
  no timings, average day 0, recovery rate 1, drawdown 0) and \<open>calculateVaR\<close> returns
  \<open>undefined\<close>, while \<open>generateStatistics\<close> throws a \<open>TypeError\<close>, whatever its
  collaborators do; on an ensemble that holds a trajectory without days, all three throw a
  \<open>TypeError\<close>.
\<close>

theorem empty_inputs_are_not_validated:
  "calculateCollapseProbability [] =
     Inr \<lparr>collapseProbability = NaN, collapseTimings = [], averageCollapsDay = 0,
          recoveryRate = 1, maxDrawdown = 0\<rparr>
   \<and> calculateVaR [] p = Inr Undefined
   \<and> generateStatistics cs ast vb [] = Inl TypeError
   \<and> ([] \<in> set ts \<longrightarrow>
        calculateCollapseProbability ts = Inl TypeError \<and>
        calculateVaR ts p = Inl TypeError \<and>
        generateStatistics cs ast vb ts = Inl TypeError)"
  by (simp add: collapse_empty var_empty stats_empty collapse_throw var_throw stats_throw)

theorem empty_inputs_are_not_validated_witness:
  "[] \<in> set [[wallet 5 700], []] \<and>
   calculateCollapseProbability [[wallet 5 700], []] = Inl TypeError \<and>
   calculateVaR [[wallet 5 700], []] (1 / 20) = Inl TypeError \<and>
   generateStatistics (\<lambda>ts scores. Inr ()) (\<lambda>ts. Inr ()) (\<lambda>ts. Inr ()) [[wallet 5 700], []] =
     Inl TypeError"
proof -
  have h: "[] \<in> set [[wallet 5 700], []]" by simp
  from empty_inputs_are_not_validated
    [of "1 / 20" "\<lambda>ts scores. Inr ()" "\<lambda>ts. Inr ()" "\<lambda>ts. Inr ()" "[[wallet 5 700], []]"] h
  show ?thesis by blast
qed

text \<open>
  C9. For percentiles below 1 the value at risk is monotone: on an ensemble that is not
  empty and whose trajectories all have a day, \<open>0 \<le> p1 \<le> p2 < 1\<close> gives two final
  balances in order.
\<close>

lemma calculateVaR_monotone_below_one:
  assumes "ts \<noteq> []" and "[] \<notin> set ts" and "0 \<le> p1" and "p1 \<le> p2" and "p2 < 1"
  shows "\<exists>a b. calculateVaR ts p1 = Inr (Num a) \<and> calculateVaR ts p2 = Inr (Num b) \<and> a \<le> b"
  using assms by (rule var_monotone)

lemma calculateVaR_at_one:
  assumes "[] \<notin> set ts"
  shows "calculateVaR ts 1 = Inr Undefined"
  by (simp add: var_value [OF assms] js_index_def)

text \<open>
  C9 at the percentile 1, which the claim includes: the index \<open>floor(n * 1)\<close> is the length
  of the sorted array, one past its last element, and the value read there is \<open>undefined\<close>.
  For a single trajectory ending at balance 5, the value at risk at 1/2 is 5 and at 1 it is
  \<open>undefined\<close>, and the comparison \<open>5 <= undefined\<close> is false.
\<close>

theorem calculateVaR_percentile_one_undefined:
  "calculateVaR [[wallet 5 700]] (1 / 2) = Inr (Num 5) \<and>
   calculateVaR [[wallet 5 700]] 1 = Inr Undefined \<and>
   \<not> js_le (Num 5) Undefined"
  by (simp add: risk_eval)

end
